theory Spec2Isabelle
  imports Main
begin

section \<open>Values exchanged with Node and simple-git\<close>

text \<open>
  The service \<^verbatim>\<open>GitFileSystemService\<close> talks to two collaborators: the Node \<^verbatim>\<open>fs.promises\<close>
  API and a \<^verbatim>\<open>SimpleGit\<close> instance. Both are outside the repository, so they are modelled as
  an environment that answers every call. A rejected promise carries a thrown value; the
  service only ever asks whether it is a \<^verbatim>\<open>GitError\<close>, whether it is an \<^verbatim>\<open>Error\<close>, and what its
  message is.
\<close>

datatype thrown = GitError string | PlainError string | NonError

fun isGitError :: "thrown \<Rightarrow> bool" where
  "isGitError (GitError m) = True"
| "isGitError (PlainError m) = False"
| "isGitError NonError = False"

text \<open>\<^verbatim>\<open>GitError\<close> extends \<^verbatim>\<open>Error\<close>.\<close>

fun isError :: "thrown \<Rightarrow> bool" where
  "isError (GitError m) = True"
| "isError (PlainError m) = True"
| "isError NonError = False"

fun thrown_message :: "thrown \<Rightarrow> string" where
  "thrown_message (GitError m) = m"
| "thrown_message (PlainError m) = m"
| "thrown_message NonError = []"

text \<open>
  The error values that travel in the \<^verbatim>\<open>Err\<close> side of a \<^verbatim>\<open>ResultAsync\<close>. Besides the error
  classes, \<^verbatim>\<open>isValidGitRepo\<close> and \<^verbatim>\<open>pull\<close> put a bare boolean there.
\<close>

datatype error =
    NotFoundError string
  | ConflictError string
  | BadRequestError string
  | GitFileSystemError string
  | GitFileSystemNeedsRollbackError string
  | MediaTypeError string
  | BoolError bool

fun isNotFoundError :: "error \<Rightarrow> bool" where
  "isNotFoundError (NotFoundError m) = True"
| "isNotFoundError e = False"

fun isNeedsRollback :: "error \<Rightarrow> bool" where
  "isNeedsRollback (GitFileSystemNeedsRollbackError m) = True"
| "isNeedsRollback e = False"

fun isBoolean :: "error \<Rightarrow> bool" where
  "isBoolean (BoolError b) = True"
| "isBoolean e = False"

fun isGitFileSystemError :: "error \<Rightarrow> bool" where
  "isGitFileSystemError (GitFileSystemError m) = True"
| "isGitFileSystemError e = False"

fun error_message :: "error \<Rightarrow> string" where
  "error_message (NotFoundError m) = m"
| "error_message (ConflictError m) = m"
| "error_message (BadRequestError m) = m"
| "error_message (GitFileSystemError m) = m"
| "error_message (GitFileSystemNeedsRollbackError m) = m"
| "error_message (MediaTypeError m) = m"
| "error_message (BoolError b) = []"

datatype encoding = Utf8 | Base64

text \<open>
  How the evaluation of a JavaScript expression ends: with a value, or with the \<^verbatim>\<open>TypeError\<close>
  that reading a property of \<^verbatim>\<open>undefined\<close> throws.
\<close>

datatype 'a completion = Normal 'a | TypeError

record Stats =
  isDirectory :: bool
  isFile :: bool
  size_bytes :: nat

record Dirent =
  dirent_name :: string
  dirent_isDirectory :: bool

record DefaultLogFields =
  author_name :: string
  author_email :: string
  date :: string
  message :: string
  hash :: string

record GitHubCommitData =
  commit_author_name :: string
  commit_author_email :: string
  commit_author_date :: string
  commit_message :: string
  sha :: string

datatype ItemType = Dir | File

record GitDirectoryItem =
  item_name :: string
  item_type :: ItemType
  item_sha :: string
  item_path :: string
  item_size :: nat

record GitFile =
  gf_content :: string
  gf_sha :: string

record MediaFileOutput =
  media_name :: string
  media_sha :: string
  mediaUrl :: string
  mediaPath :: string
  media_type :: ItemType

section \<open>Calls and the environment\<close>

text \<open>
  Every call the service issues is recorded. A Git call carries the working directory given
  to \<^verbatim>\<open>git.cwd\<close>; \<^verbatim>\<open>FsMkdir\<close> and \<^verbatim>\<open>FsRm\<close> carry the \<^verbatim>\<open>recursive\<close> flag.
\<close>

datatype call =
    FsStat string
  | FsMkdir string bool
  | FsWriteFile string string encoding
  | FsReadFile string encoding
  | FsReaddir string
  | FsRm string bool
  | FsRename string string
  | GitCheckIsRepo string
  | GitRemote string "string list"
  | GitRevparse string "string list"
  | GitCheckout string string
  | GitLog string "string list"
  | GitReset string "string list"
  | GitClean string string
  | GitPull string
  | GitPush string "string list"
  | GitAdd string "string list"
  | GitCommit string string
  | GitMv string string string
  | GitCatFile string "string list"

text \<open>
  The environment holds the constants of \<^verbatim>\<open>@constants/constants\<close> (declared outside the
  sources at hand) and, for each result type, an oracle that answers a call given the calls
  issued before it. The history argument lets the answer to a call depend on everything done
  so far, so a push may fail once and then succeed, and a file may exist after it was written.
\<close>

record env =
  EFS_VOL_PATH_STAGING :: string
  EFS_VOL_PATH_STAGING_LITE :: string
  ISOMER_GITHUB_ORG_NAME :: string
  STAGING_BRANCH :: string
  STAGING_LITE_BRANCH :: string
  answer_unit :: "call list \<Rightarrow> call \<Rightarrow> thrown + unit"
  answer_string :: "call list \<Rightarrow> call \<Rightarrow> thrown + string"
  answer_bool :: "call list \<Rightarrow> call \<Rightarrow> thrown + bool"
  answer_remote :: "call list \<Rightarrow> call \<Rightarrow> thrown + string option"
  answer_stats :: "call list \<Rightarrow> call \<Rightarrow> thrown + Stats"
  answer_log :: "call list \<Rightarrow> call \<Rightarrow> thrown + DefaultLogFields option"
  answer_dirents :: "call list \<Rightarrow> call \<Rightarrow> thrown + Dirent list"

section \<open>The result combinators of neverthrow\<close>

text \<open>
  A \<^verbatim>\<open>ResultAsync\<close> is a computation over the call history: it returns \<^verbatim>\<open>Err\<close> (\<open>Inl\<close>) or
  \<^verbatim>\<open>Ok\<close> (\<open>Inr\<close>) and the history extended by the calls it issued.
\<close>

type_synonym 'a ResultAsync = "call list \<Rightarrow> (error + 'a) \<times> call list"

definition okAsync :: "'a \<Rightarrow> 'a ResultAsync" where
  "okAsync v = (\<lambda>t. (Inr v, t))"

definition errAsync :: "error \<Rightarrow> 'a ResultAsync" where
  "errAsync e = (\<lambda>t. (Inl e, t))"

definition andThen :: "'a ResultAsync \<Rightarrow> ('a \<Rightarrow> 'b ResultAsync) \<Rightarrow> 'b ResultAsync" where
  "andThen m f = (\<lambda>t. case m t of (Inl e, t') \<Rightarrow> (Inl e, t') | (Inr v, t') \<Rightarrow> f v t')"

definition orElse :: "'a ResultAsync \<Rightarrow> (error \<Rightarrow> 'a ResultAsync) \<Rightarrow> 'a ResultAsync" where
  "orElse m f = (\<lambda>t. case m t of (Inl e, t') \<Rightarrow> f e t' | (Inr v, t') \<Rightarrow> (Inr v, t'))"

definition mapOk :: "'a ResultAsync \<Rightarrow> ('a \<Rightarrow> 'b) \<Rightarrow> 'b ResultAsync" where
  "mapOk m f = (\<lambda>t. case m t of (Inl e, t') \<Rightarrow> (Inl e, t') | (Inr v, t') \<Rightarrow> (Inr (f v), t'))"

text \<open>
  \<^verbatim>\<open>ResultAsync.fromPromise(promise, errorFn)\<close>: the call is issued, the environment answers
  it from the history so far, and a rejection is mapped through \<^verbatim>\<open>errorFn\<close>.
\<close>

definition fromPromise ::
  "(call list \<Rightarrow> call \<Rightarrow> thrown + 'a) \<Rightarrow> call \<Rightarrow> (thrown \<Rightarrow> error) \<Rightarrow> 'a ResultAsync" where
  "fromPromise oracle c errorFn =
     (\<lambda>t. (case oracle t c of Inl x \<Rightarrow> Inl (errorFn x) | Inr v \<Rightarrow> Inr v, t @ [c]))"

text \<open>
  \<^verbatim>\<open>combine\<close> receives computations that are all already running. A member of the lists
  built in this service is a chain \<^verbatim>\<open>first(...).orElse(...).andThen(...)\<close>: building the chain
  issues the call of \<^verbatim>\<open>first\<close>, and the callbacks run once that call has settled. A member is
  therefore given as a pair: the computation that is started when the list is built, and the
  callbacks as a function of its settled result. The list is built from left to right, so the
  first calls of all members are issued in list order before any callback runs. The callbacks
  of different members run in the order in which the first calls settle; here they settle in
  the order in which they were issued, and every callback chain of this service issues at most
  one further call. Every member runs to its end, whatever the others return, and the combined
  result is the first \<^verbatim>\<open>Err\<close> in list order, or the list of all values
  (\<^verbatim>\<open>combineResultList\<close>).
\<close>

definition settledAsync :: "error + 'a \<Rightarrow> 'a ResultAsync" where
  "settledAsync r = (\<lambda>t. (r, t))"

fun run_all :: "'a ResultAsync list \<Rightarrow> call list \<Rightarrow> (error + 'a) list \<times> call list" where
  "run_all [] t = ([], t)"
| "run_all (m # ms) t =
     (case m t of (r, t1) \<Rightarrow> (case run_all ms t1 of (rs, t2) \<Rightarrow> (r # rs, t2)))"

fun combineResultList :: "(error + 'a) list \<Rightarrow> error + 'a list" where
  "combineResultList [] = Inr []"
| "combineResultList (Inl e # rs) = Inl e"
| "combineResultList (Inr v # rs) =
     (case combineResultList rs of Inl e \<Rightarrow> Inl e | Inr vs \<Rightarrow> Inr (v # vs))"

definition combine ::
  "('b ResultAsync \<times> (error + 'b \<Rightarrow> 'a ResultAsync)) list \<Rightarrow> 'a list ResultAsync" where
  "combine members =
     (\<lambda>t. case run_all (map fst members) t of
             (settled, t1) \<Rightarrow>
               (case run_all (map (\<lambda>(callbacks, r). callbacks r) (zip (map snd members) settled)) t1 of
                  (results, t2) \<Rightarrow> (combineResultList results, t2)))"

text \<open>
  \<^verbatim>\<open>combine([a, b])\<close> for two members without callbacks, each a single call or a settled
  value: the call of \<^verbatim>\<open>a\<close> is issued before the call of \<^verbatim>\<open>b\<close>, both run, and the first
  \<^verbatim>\<open>Err\<close> in list order is returned.
\<close>

definition combine2 :: "'a ResultAsync \<Rightarrow> 'b ResultAsync \<Rightarrow> ('a \<times> 'b) ResultAsync" where
  "combine2 ma mb =
     (\<lambda>t. case ma t of (ra, t1) \<Rightarrow>
        (case mb t1 of (rb, t2) \<Rightarrow>
           (case ra of
              Inl e \<Rightarrow> (Inl e, t2)
            | Inr a \<Rightarrow> (case rb of Inl e \<Rightarrow> (Inl e, t2) | Inr b \<Rightarrow> (Inr (a, b), t2)))))"

section \<open>String helpers of JavaScript\<close>

fun startsWith :: "string \<Rightarrow> string \<Rightarrow> bool" where
  "startsWith s [] = True"
| "startsWith [] (c # cs) = False"
| "startsWith (d # ds) (c # cs) = (d = c \<and> startsWith ds cs)"

text \<open>\<^verbatim>\<open>String.prototype.includes\<close>.\<close>

fun str_includes :: "string \<Rightarrow> string \<Rightarrow> bool" where
  "str_includes [] sub = (sub = [])"
| "str_includes (c # cs) sub = (startsWith (c # cs) sub \<or> str_includes cs sub)"

text \<open>\<^verbatim>\<open>String.prototype.split\<close> with a one-character separator; the result is never empty.\<close>

fun split_on :: "char \<Rightarrow> string \<Rightarrow> string list" where
  "split_on sep [] = [[]]"
| "split_on sep (c # cs) =
     (if c = sep then [] # split_on sep cs
      else (case split_on sep cs of
              [] \<Rightarrow> [[c]]
            | p # ps \<Rightarrow> (c # p) # ps))"

text \<open>
  \<^verbatim>\<open>String.prototype.trim\<close> strips white space and line terminators. A string is a list of
  code units below 256 here; among these, the white space and line terminators of ECMAScript
  are tab, line feed, vertical tab, form feed, carriage return, space and the no-break space
  \<^verbatim>\<open>U+00A0\<close>.
\<close>

definition isWhiteSpace :: "char \<Rightarrow> bool" where
  "isWhiteSpace c = (c = CHR '' '' \<or> c = CHR 0x09 \<or> c = CHR 0x0A \<or> c = CHR 0x0B
                     \<or> c = CHR 0x0C \<or> c = CHR 0x0D \<or> c = CHR 0xA0)"

definition trim :: "string \<Rightarrow> string" where
  "trim s = rev (dropWhile isWhiteSpace (rev (dropWhile isWhiteSpace s)))"

section \<open>Paths and repository validation\<close>

definition getEfsVolPathFromBranch :: "env \<Rightarrow> string \<Rightarrow> string" where
  "getEfsVolPathFromBranch env branchName =
     (if branchName = STAGING_LITE_BRANCH env
      then EFS_VOL_PATH_STAGING_LITE env else EFS_VOL_PATH_STAGING env)"

definition getEfsVolPath :: "env \<Rightarrow> bool \<Rightarrow> string" where
  "getEfsVolPath env isStaging =
     (if isStaging then EFS_VOL_PATH_STAGING env else EFS_VOL_PATH_STAGING_LITE env)"

definition getFilePathStats :: "env \<Rightarrow> string \<Rightarrow> string \<Rightarrow> bool \<Rightarrow> Stats ResultAsync" where
  "getFilePathStats env repoName filePath isStaging =
     (let efsVolPath =
            (if isStaging then EFS_VOL_PATH_STAGING env else EFS_VOL_PATH_STAGING_LITE env)
      in fromPromise (answer_stats env)
           (FsStat (efsVolPath @ ''/'' @ repoName @ ''/'' @ filePath))
           (\<lambda>error.
              if isError error \<and> str_includes (thrown_message error) ''ENOENT''
              then NotFoundError ''File/Directory does not exist''
              else if isError error then GitFileSystemError ''Unable to read file/directory''
              else GitFileSystemError ''An unknown error occurred''))"

text \<open>
  \<^verbatim>\<open>isGitInitialized(repoName, isStaging = true)\<close> and
  \<^verbatim>\<open>isOriginRemoteCorrect(repoName, isStaging = true)\<close>: the second parameter is explicit
  here, and a caller that omits it passes \<open>True\<close>.
\<close>

definition isGitInitialized :: "env \<Rightarrow> string \<Rightarrow> bool \<Rightarrow> bool ResultAsync" where
  "isGitInitialized env repoName isStaging =
     (let repoPath =
            (if isStaging then EFS_VOL_PATH_STAGING env @ ''/'' @ repoName
             else EFS_VOL_PATH_STAGING_LITE env @ ''/'' @ repoName)
      in fromPromise (answer_bool env) (GitCheckIsRepo repoPath)
           (\<lambda>error.
              if isGitError error
              then GitFileSystemError ''Unable to determine if directory is Git repo''
              else GitFileSystemError ''An unknown error occurred''))"

definition originUrl :: "env \<Rightarrow> string \<Rightarrow> string" where
  "originUrl env repoName =
     ''git@github.com:'' @ ISOMER_GITHUB_ORG_NAME env @ ''/'' @ repoName @ ''.git''"

definition isOriginRemoteCorrect :: "env \<Rightarrow> string \<Rightarrow> bool \<Rightarrow> bool ResultAsync" where
  "isOriginRemoteCorrect env repoName isStaging =
     (let repoPath =
            (if isStaging then EFS_VOL_PATH_STAGING env @ ''/'' @ repoName
             else EFS_VOL_PATH_STAGING_LITE env @ ''/'' @ repoName)
      in mapOk
           (fromPromise (answer_remote env) (GitRemote repoPath [''get-url'', ''origin''])
              (\<lambda>error.
                 if isGitError error
                 then GitFileSystemError ''Unable to determine origin remote URL''
                 else GitFileSystemError ''An unknown error occurred''))
           (\<lambda>remoteUrl.
              case remoteUrl of
                None \<Rightarrow> False
              | Some url \<Rightarrow> url \<noteq> [] \<and> trim url = originUrl env repoName))"

text \<open>
  \<^verbatim>\<open>isValidGitRepo\<close>. The stat of the root directory selects the tree of the branch; the two
  Git checks are called without the \<^verbatim>\<open>isStaging\<close> argument, hence with its default.
\<close>

definition isValidGitRepo :: "env \<Rightarrow> string \<Rightarrow> string \<Rightarrow> bool ResultAsync" where
  "isValidGitRepo env repoName branchName =
     (let s1 = getFilePathStats env repoName [] (branchName \<noteq> STAGING_LITE_BRANCH env);
          s2 = andThen s1 (\<lambda>stats.
                 if \<not> isDirectory stats then errAsync (BoolError False) else okAsync True);
          s3 = orElse s2 (\<lambda>error.
                 if isNotFoundError error then errAsync (BoolError False) else errAsync error);
          s4 = andThen s3 (\<lambda>_. isGitInitialized env repoName True);
          s5 = andThen s4 (\<lambda>isGitInitialized.
                 if \<not> isGitInitialized then errAsync (BoolError False) else okAsync True);
          s6 = andThen s5 (\<lambda>_. isOriginRemoteCorrect env repoName True);
          s7 = andThen s6 (\<lambda>isOriginRemoteCorrect.
                 if \<not> isOriginRemoteCorrect then errAsync (BoolError False) else okAsync True)
      in orElse s7 (\<lambda>error.
           if isBoolean error then okAsync False else errAsync error))"

section \<open>Branch, blob hash, log and rollback\<close>

definition ensureCorrectBranch :: "env \<Rightarrow> string \<Rightarrow> string \<Rightarrow> bool ResultAsync" where
  "ensureCorrectBranch env repoName branchName =
     (let efsVolPath = getEfsVolPathFromBranch env branchName
      in andThen
           (fromPromise (answer_string env)
              (GitRevparse (efsVolPath @ ''/'' @ repoName) [''--abbrev-ref'', ''HEAD''])
              (\<lambda>error.
                 if isGitError error
                 then GitFileSystemError ''Unable to determine current branch''
                 else GitFileSystemError ''An unknown error occurred''))
           (\<lambda>currentBranch.
              if currentBranch \<noteq> branchName
              then andThen
                     (fromPromise (answer_unit env)
                        (GitCheckout (efsVolPath @ ''/'' @ repoName) branchName)
                        (\<lambda>error.
                           if isGitError error
                           then GitFileSystemError ''Unable to checkout branch''
                           else GitFileSystemError ''An unknown error occurred''))
                     (\<lambda>_. okAsync True)
              else okAsync True))"

text \<open>\<^verbatim>\<open>getGitBlobHash(repoName, filePath, isStaging = true)\<close>, the default made explicit.\<close>

definition getGitBlobHash :: "env \<Rightarrow> string \<Rightarrow> string \<Rightarrow> bool \<Rightarrow> string ResultAsync" where
  "getGitBlobHash env repoName filePath isStaging =
     (let efsVolPath =
            (if isStaging then EFS_VOL_PATH_STAGING env else EFS_VOL_PATH_STAGING_LITE env)
      in fromPromise (answer_string env)
           (GitRevparse (efsVolPath @ ''/'' @ repoName) [''HEAD:'' @ filePath])
           (\<lambda>error.
              if isGitError error
              then GitFileSystemError ''Unable to determine Git blob hash''
              else GitFileSystemError ''An unknown error occurred''))"

text \<open>
  \<^verbatim>\<open>getGitLog\<close> returns the \<^verbatim>\<open>latest\<close> entry of the log result: \<open>None\<close> stands for a value
  that is not an object with the five string fields (\<^verbatim>\<open>isDefaultLogFields\<close> is false).
\<close>

definition getGitLog ::
  "env \<Rightarrow> string \<Rightarrow> string \<Rightarrow> DefaultLogFields option ResultAsync" where
  "getGitLog env repoName branchName =
     (let efsVolPath = getEfsVolPathFromBranch env branchName
      in fromPromise (answer_log env)
           (GitLog (efsVolPath @ ''/'' @ repoName) [branchName])
           (\<lambda>error.
              if isGitError error
              then GitFileSystemError ''Unable to retrieve branch log info from disk''
              else GitFileSystemError ''An unknown error occurred''))"

definition getLatestCommitOfBranch ::
  "env \<Rightarrow> string \<Rightarrow> string \<Rightarrow> GitHubCommitData ResultAsync" where
  "getLatestCommitOfBranch env repoName branchName =
     andThen
       (orElse (getGitLog env repoName branchName)
          (\<lambda>_. getGitLog env repoName (''origin/'' @ branchName)))
       (\<lambda>possibleCommit.
          case possibleCommit of
            Some c \<Rightarrow>
              okAsync \<lparr>commit_author_name = author_name c,
                       commit_author_email = author_email c,
                       commit_author_date = date c,
                       commit_message = message c,
                       sha = hash c\<rparr>
          | None \<Rightarrow>
              errAsync (GitFileSystemError ''Unable to retrieve latest commit info from disk''))"

text \<open>
  \<^verbatim>\<open>rollback\<close> chains \<^verbatim>\<open>reset(["--hard", sha])\<close> and \<^verbatim>\<open>clean(FORCE + RECURSIVE)\<close> on one
  simple-git instance: the clean task runs only when the reset task succeeded, and a failure
  of either rejects the promise. \<^verbatim>\<open>CleanOptions.FORCE + CleanOptions.RECURSIVE\<close> is the
  string \<^verbatim>\<open>fd\<close>.
\<close>

definition rollbackErrorFn :: "thrown \<Rightarrow> error" where
  "rollbackErrorFn error =
     (if isGitError error then GitFileSystemError ''Unable to rollback to original state''
      else GitFileSystemError ''An unknown error occurred'')"

definition rollback :: "env \<Rightarrow> string \<Rightarrow> string \<Rightarrow> string \<Rightarrow> bool ResultAsync" where
  "rollback env repoName commitSha branchName =
     (let efsVolPath = getEfsVolPathFromBranch env branchName
      in andThen
           (andThen
              (fromPromise (answer_unit env)
                 (GitReset (efsVolPath @ ''/'' @ repoName) [''--hard'', commitSha])
                 rollbackErrorFn)
              (\<lambda>_. fromPromise (answer_unit env)
                      (GitClean (efsVolPath @ ''/'' @ repoName) ''fd'')
                      rollbackErrorFn))
           (\<lambda>_. okAsync True))"

section \<open>Pull and push\<close>

definition dq :: string where
  "dq = [CHR 0x22]"

definition notValidRepo :: "string \<Rightarrow> error" where
  "notValidRepo repoName =
     GitFileSystemError (''Folder '' @ dq @ repoName @ dq @ '' is not a valid Git repo'')"

definition pull :: "env \<Rightarrow> string \<Rightarrow> string \<Rightarrow> string ResultAsync" where
  "pull env repoName branchName =
     (let efsVolPath = getEfsVolPathFromBranch env branchName
      in andThen (isValidGitRepo env repoName branchName) (\<lambda>isValid.
           if \<not> isValid then errAsync (notValidRepo repoName)
           else andThen (ensureCorrectBranch env repoName branchName) (\<lambda>_.
                  mapOk
                    (orElse
                       (mapOk
                          (fromPromise (answer_unit env)
                             (GitPull (efsVolPath @ ''/'' @ repoName))
                             (\<lambda>error.
                                if isGitError error \<and>
                                   (str_includes (thrown_message error)
                                      ''but no such ref was fetched.'' \<or>
                                    str_includes (thrown_message error)
                                      ''error: cannot lock ref'' \<or>
                                    str_includes (thrown_message error)
                                      ''Cannot fast-forward your working tree'' \<or>
                                    str_includes (thrown_message error)
                                      ''Need to specify how to reconcile divergent branches'')
                                then BoolError False
                                else if isGitError error
                                then GitFileSystemError ''Unable to pull latest changes of repo''
                                else GitFileSystemError ''An unknown error occurred''))
                          (\<lambda>_. True))
                       (\<lambda>error. if isBoolean error then okAsync True else errAsync error))
                    (\<lambda>_. efsVolPath @ ''/'' @ repoName))))"

definition pushErrorFn :: "thrown \<Rightarrow> error" where
  "pushErrorFn error =
     (if isGitError error then GitFileSystemError ''Unable to push latest changes of repo''
      else GitFileSystemError ''An unknown error occurred'')"

text \<open>
  \<^verbatim>\<open>`origin ${branchName}`.split(" ")\<close> gives the push arguments of the first attempt; the
  second attempt passes no remote and no branch.
\<close>

definition push :: "env \<Rightarrow> string \<Rightarrow> string \<Rightarrow> bool \<Rightarrow> string ResultAsync" where
  "push env repoName branchName isForce =
     (let efsVolPath = getEfsVolPathFromBranch env branchName
      in andThen (isValidGitRepo env repoName branchName) (\<lambda>isValid.
           if \<not> isValid then errAsync (notValidRepo repoName)
           else
             (let gitOptions = split_on CHR '' '' (''origin '' @ branchName);
                  s1 = andThen (ensureCorrectBranch env repoName branchName) (\<lambda>_.
                         fromPromise (answer_unit env)
                           (if isForce
                            then GitPush (efsVolPath @ ''/'' @ repoName) (gitOptions @ [''--force''])
                            else GitPush (efsVolPath @ ''/'' @ repoName) gitOptions)
                           pushErrorFn);
                  s2 = orElse s1 (\<lambda>_.
                         fromPromise (answer_unit env)
                           (if isForce
                            then GitPush (efsVolPath @ ''/'' @ repoName) [''--force'']
                            else GitPush (efsVolPath @ ''/'' @ repoName) [])
                           pushErrorFn)
              in mapOk s2 (\<lambda>_. efsVolPath @ ''/'' @ repoName))))"

section \<open>Commit\<close>

text \<open>The decimal digit of a number below ten, and the hexadecimal digit of one below sixteen.\<close>

definition digit_char :: "nat \<Rightarrow> char" where
  "digit_char n = ''0123456789'' ! (n mod 10)"

function showNat :: "nat \<Rightarrow> string" where
  "showNat n = (if n < 10 then [digit_char n] else showNat (n div 10) @ [digit_char (n mod 10)])"
  by pat_completeness auto
termination
  by (relation "measure id") auto

declare showNat.simps [simp del]

definition hex_char :: "nat \<Rightarrow> char" where
  "hex_char n = ''0123456789abcdef'' ! (n mod 16)"

text \<open>
  \<^verbatim>\<open>JSON.stringify\<close> of a string: the quote and the backslash are escaped, the control
  characters get their short escape or \<^verbatim>\<open>\u00XX\<close>.
\<close>

definition json_escape_char :: "char \<Rightarrow> string" where
  "json_escape_char c =
     (if c = CHR 0x22 then [CHR 0x5C, CHR 0x22]
      else if c = CHR 0x5C then [CHR 0x5C, CHR 0x5C]
      else if c = CHR 0x08 then [CHR 0x5C, CHR ''b'']
      else if c = CHR 0x0C then [CHR 0x5C, CHR ''f'']
      else if c = CHR 0x0A then [CHR 0x5C, CHR ''n'']
      else if c = CHR 0x0D then [CHR 0x5C, CHR ''r'']
      else if c = CHR 0x09 then [CHR 0x5C, CHR ''t'']
      else if (of_char c :: nat) < 32
      then [CHR 0x5C, CHR ''u'', CHR ''0'', CHR ''0'',
            hex_char ((of_char c :: nat) div 16), hex_char ((of_char c :: nat) mod 16)]
      else [c])"

definition json_string :: "string \<Rightarrow> string" where
  "json_string s = dq @ concat (map json_escape_char s) @ dq"

text \<open>
  \<^verbatim>\<open>JSON.stringify(commitMessageObj)\<close>: the keys \<^verbatim>\<open>message\<close> and \<^verbatim>\<open>userId\<close>, then
  \<^verbatim>\<open>fileName\<close> when it was set.
\<close>

definition stringifyCommitMessage :: "string \<Rightarrow> string \<Rightarrow> string option \<Rightarrow> string" where
  "stringifyCommitMessage msg userId fileName =
     ''{'' @ json_string ''message'' @ '':'' @ json_string msg @ '','' @
     json_string ''userId'' @ '':'' @ json_string userId @
     (case fileName of
        None \<Rightarrow> []
      | Some f \<Rightarrow> '','' @ json_string ''fileName'' @ '':'' @ json_string f) @ ''}''"

definition commitErrorFn :: "thrown \<Rightarrow> error" where
  "commitErrorFn error =
     (if isGitError error then GitFileSystemNeedsRollbackError ''Unable to commit changes''
      else GitFileSystemNeedsRollbackError ''An unknown error occurred'')"

definition commit ::
  "env \<Rightarrow> string \<Rightarrow> string list \<Rightarrow> string \<Rightarrow> string \<Rightarrow> string \<Rightarrow> bool \<Rightarrow> string ResultAsync" where
  "commit env repoName pathSpec userId msg branchName skipGitAdd =
     (let efsVolPath = getEfsVolPathFromBranch env branchName
      in andThen (isValidGitRepo env repoName branchName) (\<lambda>isValid.
           if \<not> isValid then errAsync (notValidRepo repoName)
           else if length pathSpec < 1 \<or> length pathSpec > 2
           then errAsync
                  (GitFileSystemError
                     (''Invalid pathSpec length: '' @ showNat (length pathSpec) @
                      ''. Expected 1 or 2''))
           else
             (let commitMessage =
                    stringifyCommitMessage msg userId
                      (case pathSpec of
                         [p] \<Rightarrow> Some (last (split_on CHR ''/'' p))
                       | _ \<Rightarrow> None);
                  s1 = ensureCorrectBranch env repoName branchName;
                  s2 = andThen s1 (\<lambda>_.
                         if skipGitAdd then okAsync ()
                         else fromPromise (answer_unit env)
                                (GitAdd (efsVolPath @ ''/'' @ repoName) pathSpec)
                                commitErrorFn);
                  s3 = andThen s2 (\<lambda>_.
                         fromPromise (answer_string env)
                           (GitCommit (efsVolPath @ ''/'' @ repoName) commitMessage)
                           commitErrorFn)
              in mapOk s3 (\<lambda>commitResult. commitResult))))"

section \<open>The mutating operations\<close>

text \<open>
  Each of \<^verbatim>\<open>create\<close>, \<^verbatim>\<open>update\<close>, \<^verbatim>\<open>delete\<close>, \<^verbatim>\<open>renameSinglePath\<close> and \<^verbatim>\<open>moveFiles\<close>
  ends with the same \<^verbatim>\<open>orElse\<close> callback; it reads the local variable \<^verbatim>\<open>oldStateSha\<close>.
\<close>

definition rollbackOnNeedsRollback ::
  "env \<Rightarrow> string \<Rightarrow> string \<Rightarrow> string \<Rightarrow> error \<Rightarrow> 'a ResultAsync" where
  "rollbackOnNeedsRollback env repoName oldStateSha branchName error =
     (if isNeedsRollback error
      then andThen (rollback env repoName oldStateSha branchName)
             (\<lambda>_. errAsync (GitFileSystemError (error_message error)))
      else errAsync error)"

text \<open>
  Each operation is a chain closed by the \<^verbatim>\<open>orElse\<close> callback above. The chain up to that
  callback is \<open>create_chain\<close> (and so on); the operation runs the chain and then the
  callback. The local variable \<^verbatim>\<open>oldStateSha\<close> starts as the empty string and is assigned
  in the first callback of the chain, from the latest commit read at the start; the closing
  callback reads it, so its value there is a function of the outcome of the first step.
  \<^verbatim>\<open>new NotFoundError()\<close> takes the default message of the class, which is declared outside
  the sources at hand; the value is caught by the next callback and its message is never read.
  The result \<^verbatim>\<open>{ newSha: commit }\<close> of \<^verbatim>\<open>create\<close> is represented by the commit SHA itself.
\<close>

definition create_chain ::
  "env \<Rightarrow> string \<Rightarrow> string \<Rightarrow> string \<Rightarrow> string \<Rightarrow> string \<Rightarrow> encoding \<Rightarrow> string \<Rightarrow>
   string ResultAsync" where
  "create_chain env repoName userId content directoryName fileName encoding branchName =
     (let efsVolPath = getEfsVolPathFromBranch env branchName;
          filePath = (if directoryName \<noteq> [] then directoryName @ ''/'' @ fileName else fileName);
          pathToEfsDir = efsVolPath @ ''/'' @ repoName @ ''/'' @ directoryName @ ''/'';
          pathToEfsFile = efsVolPath @ ''/'' @ repoName @ ''/'' @ filePath;
          encodedContent = content;
          s0 = getLatestCommitOfBranch env repoName branchName;
          s1 = andThen s0 (\<lambda>latestCommit.
                 if sha latestCommit = []
                 then errAsync (GitFileSystemError ''An unknown error occurred'')
                 else okAsync True);
          s2 = andThen s1 (\<lambda>_.
                 getFilePathStats env repoName directoryName
                   (branchName \<noteq> STAGING_LITE_BRANCH env));
          s3 = andThen s2 (\<lambda>stats.
                 if isDirectory stats then okAsync True
                 else errAsync (NotFoundError []));
          s4 = orElse s3 (\<lambda>error.
                 if isNotFoundError error
                 then mapOk
                        (fromPromise (answer_unit env) (FsMkdir pathToEfsDir False)
                           (\<lambda>mkdirErr. GitFileSystemError ''An unknown error occurred''))
                        (\<lambda>_. True)
                 else errAsync error);
          s5 = andThen s4 (\<lambda>_.
                 getFilePathStats env repoName filePath
                   (branchName \<noteq> STAGING_LITE_BRANCH env));
          s6 = andThen s5 (\<lambda>stats.
                 if isFile stats
                 then errAsync
                        (ConflictError
                           (''File '' @ filePath @ '' already exists in repo '' @ repoName))
                 else okAsync True);
          s7 = orElse s6 (\<lambda>error.
                 if isNotFoundError error then okAsync True else errAsync error);
          s8 = andThen s7 (\<lambda>_.
                 fromPromise (answer_unit env)
                   (FsWriteFile pathToEfsFile encodedContent encoding)
                   (\<lambda>error.
                      if isError error
                      then GitFileSystemNeedsRollbackError (thrown_message error)
                      else GitFileSystemNeedsRollbackError ''An unknown error occurred''));
          s9 = andThen s8 (\<lambda>_.
                 commit env repoName [pathToEfsFile] userId
                   (''Create file: '' @ filePath) branchName False);
          s10 = mapOk s9 (\<lambda>commit. commit)
      in s10)"

definition create ::
  "env \<Rightarrow> string \<Rightarrow> string \<Rightarrow> string \<Rightarrow> string \<Rightarrow> string \<Rightarrow> encoding \<Rightarrow> string \<Rightarrow>
   string ResultAsync" where
  "create env repoName userId content directoryName fileName encoding branchName =
     (\<lambda>t.
        let oldStateSha =
              (case fst (getLatestCommitOfBranch env repoName branchName t) of
                 Inl e \<Rightarrow> []
               | Inr latestCommit \<Rightarrow> if sha latestCommit = [] then [] else sha latestCommit)
        in orElse (create_chain env repoName userId content directoryName fileName encoding branchName)
             (rollbackOnNeedsRollback env repoName oldStateSha branchName) t)"

section \<open>Reading\<close>

definition read :: "env \<Rightarrow> string \<Rightarrow> string \<Rightarrow> encoding \<Rightarrow> GitFile ResultAsync" where
  "read env repoName filePath encoding =
     (let defaultEfsVolPath = EFS_VOL_PATH_STAGING env
      in mapOk
           (combine2
              (fromPromise (answer_string env)
                 (FsReadFile (defaultEfsVolPath @ ''/'' @ repoName @ ''/'' @ filePath) encoding)
                 (\<lambda>error.
                    if isError error \<and> str_includes (thrown_message error) ''ENOENT''
                    then NotFoundError ''File does not exist''
                    else if isError error then GitFileSystemError ''Unable to read file''
                    else GitFileSystemError ''An unknown error occurred''))
              (getGitBlobHash env repoName filePath True))
           (\<lambda>(content, sha). \<lparr>gf_content = content, gf_sha = sha\<rparr>))"

definition getFileExtension :: "string \<Rightarrow> error + string" where
  "getFileExtension fileName =
     (let parts = split_on CHR ''.'' fileName
      in if length parts > 1 then Inr (last parts)
         else Inl (MediaTypeError ''Unable to find file extension''))"

text \<open>
  The service imports \<^verbatim>\<open>ALLOWED_FILE_EXTENSIONS\<close> by name from
  \<^verbatim>\<open>utils/file-upload-utils\<close>. That module declares the constant, and its last statement is
  \<^verbatim>\<open>module.exports = { validateAndSanitizeFileUpload, scanFileForVirus }\<close>. A name that the
  exports object does not hold is imported as \<^verbatim>\<open>undefined\<close>, which is \<open>None\<close> here.
\<close>

definition file_upload_utils_declared :: "string list" where
  "file_upload_utils_declared = [''pdf'', ''png'', ''jpg'', ''gif'', ''tif'', ''bmp'', ''ico'']"

definition file_upload_utils_exports :: "string list" where
  "file_upload_utils_exports = [''validateAndSanitizeFileUpload'', ''scanFileForVirus'']"

definition ALLOWED_FILE_EXTENSIONS :: "string list option" where
  "ALLOWED_FILE_EXTENSIONS =
     (if ''ALLOWED_FILE_EXTENSIONS'' \<in> set file_upload_utils_exports
      then Some file_upload_utils_declared else None)"

text \<open>
  \<^verbatim>\<open>getMimeType\<close> first evaluates \<^verbatim>\<open>ALLOWED_FILE_EXTENSIONS.includes(fileExtension)\<close>, which
  throws when the constant is \<^verbatim>\<open>undefined\<close>. The \<^verbatim>\<open>err(...)\<close> of the first statement is an
  expression statement: its value is built and dropped, and control goes on to the
  \<^verbatim>\<open>switch\<close>.
\<close>

definition getMimeType :: "string \<Rightarrow> (error + string) completion" where
  "getMimeType fileExtension =
     (case ALLOWED_FILE_EXTENSIONS of
        None \<Rightarrow> TypeError
      | Some allowed \<Rightarrow>
          (let dropped =
                 (if fileExtension \<notin> set allowed
                  then Some (MediaTypeError ''Unsupported file extension found'')
                  else None)
           in if fileExtension = ''svg'' then Normal (Inr ''image/svg+xml'')
              else if fileExtension = ''ico'' then Normal (Inr ''image/vnd.microsoft.icon'')
              else if fileExtension = ''jpg'' then Normal (Inr ''image/jpeg'')
              else if fileExtension = ''tif'' then Normal (Inr ''image/tiff'')
              else Normal (Inr (''image/'' @ fileExtension))))"

text \<open>
  \<^verbatim>\<open>readMediaFile\<close> is \<^verbatim>\<open>read(...).andThen(callback)\<close>. The callback runs when the file was
  read; an exception thrown in it rejects the promise of the \<^verbatim>\<open>ResultAsync\<close>, so the caller
  gets neither \<^verbatim>\<open>Ok\<close> nor \<^verbatim>\<open>Err\<close>.
\<close>

definition readMediaFile ::
  "env \<Rightarrow> string \<Rightarrow> string \<Rightarrow> string \<Rightarrow> call list \<Rightarrow>
   (error + MediaFileOutput) completion \<times> call list" where
  "readMediaFile env siteName directoryName fileName =
     (\<lambda>t. case read env siteName (directoryName @ ''/'' @ fileName) Base64 t of
             (Inl e, t') \<Rightarrow> (Normal (Inl e), t')
           | (Inr file, t') \<Rightarrow>
               (case getFileExtension fileName of
                  Inl e \<Rightarrow> (Normal (Inl e), t')
                | Inr ext \<Rightarrow>
                    (case getMimeType ext of
                       TypeError \<Rightarrow> (TypeError, t')
                     | Normal (Inl e) \<Rightarrow> (Normal (Inl e), t')
                     | Normal (Inr mimeType) \<Rightarrow>
                         (let dataUrlPrefix = ''data:'' @ mimeType @ '';base64''
                          in (Normal (Inr \<lparr>media_name = fileName,
                                             media_sha = gf_sha file,
                                             mediaUrl = dataUrlPrefix @ '','' @ gf_content file,
                                             mediaPath = directoryName @ ''/'' @ fileName,
                                             media_type = File\<rparr>), t')))))"

text \<open>
  The chain that \<^verbatim>\<open>listDirectoryContents\<close> builds for one directory entry. Building it
  calls \<^verbatim>\<open>getGitBlobHash(repoName, path)\<close>, hence with the default \<^verbatim>\<open>isStaging = true\<close>;
  the callbacks replace a failed lookup by the empty string, stat the entry in the tree of
  the branch, and build the item.
\<close>

definition directoryItemPath :: "string \<Rightarrow> Dirent \<Rightarrow> string" where
  "directoryItemPath directoryPath directoryItem =
     (if directoryPath = [] then dirent_name directoryItem
      else directoryPath @ ''/'' @ dirent_name directoryItem)"

definition directoryItemLookup :: "env \<Rightarrow> string \<Rightarrow> string \<Rightarrow> Dirent \<Rightarrow> string ResultAsync" where
  "directoryItemLookup env repoName directoryPath directoryItem =
     getGitBlobHash env repoName (directoryItemPath directoryPath directoryItem) True"

definition directoryItemCallbacks ::
  "env \<Rightarrow> string \<Rightarrow> string \<Rightarrow> string \<Rightarrow> Dirent \<Rightarrow> error + string \<Rightarrow>
   GitDirectoryItem ResultAsync" where
  "directoryItemCallbacks env repoName directoryPath branchName directoryItem lookup =
     (let isDir = dirent_isDirectory directoryItem;
          name = dirent_name directoryItem;
          path = directoryItemPath directoryPath directoryItem;
          type = (if isDir then Dir else File)
      in andThen
           (andThen
              (orElse (settledAsync lookup) (\<lambda>_. okAsync []))
              (\<lambda>sha.
                 combine2 (okAsync sha)
                   (getFilePathStats env repoName path
                      (branchName \<noteq> STAGING_LITE_BRANCH env))))
           (\<lambda>(sha, stats).
              okAsync \<lparr>item_name = name,
                       item_type = type,
                       item_sha = sha,
                       item_path = path,
                       item_size = (if type = Dir then 0 else size_bytes stats)\<rparr>))"

definition listDirectoryContents ::
  "env \<Rightarrow> string \<Rightarrow> string \<Rightarrow> string \<Rightarrow> GitDirectoryItem list ResultAsync" where
  "listDirectoryContents env repoName directoryPath branchName =
     (let efsVolPath = getEfsVolPathFromBranch env branchName;
          s1 = getFilePathStats env repoName directoryPath
                 (branchName \<noteq> STAGING_LITE_BRANCH env);
          s2 = andThen s1 (\<lambda>stats.
                 if \<not> isDirectory stats
                 then errAsync
                        (GitFileSystemError
                           (''Path '' @ dq @ directoryPath @ dq @
                            '' is not a valid directory in repo '' @ dq @ repoName @ dq))
                 else okAsync True);
          s3 = andThen s2 (\<lambda>_.
                 fromPromise (answer_dirents env)
                   (FsReaddir (efsVolPath @ ''/'' @ repoName @ ''/'' @ directoryPath))
                   (\<lambda>error.
                      if isError error then GitFileSystemError ''Unable to read directory''
                      else GitFileSystemError ''An unknown error occurred''));
          s4 = andThen s3 (\<lambda>directoryContents.
                 combine
                   (map (\<lambda>directoryItem.
                           (directoryItemLookup env repoName directoryPath directoryItem,
                            directoryItemCallbacks env repoName directoryPath branchName
                              directoryItem))
                      directoryContents))
      in andThen s4 (\<lambda>directoryItems.
           okAsync (filter (\<lambda>item. item_sha item \<noteq> []) directoryItems)))"

section \<open>Update, delete, rename and move\<close>

definition conflictIfShaDiffers :: "string \<Rightarrow> string \<Rightarrow> string ResultAsync" where
  "conflictIfShaDiffers oldSha currentSha =
     (if currentSha \<noteq> oldSha
      then errAsync (ConflictError ''File has been changed recently, please try again'')
      else okAsync currentSha)"

definition notValidFile :: "string \<Rightarrow> string \<Rightarrow> error" where
  "notValidFile path repoName =
     GitFileSystemError
       (''Path '' @ dq @ path @ dq @ '' is not a valid file in repo '' @ dq @ repoName @ dq)"

definition notValidDirectory :: "string \<Rightarrow> string \<Rightarrow> error" where
  "notValidDirectory path repoName =
     GitFileSystemError
       (''Path '' @ dq @ path @ dq @ '' is not a valid directory in repo '' @ dq @ repoName @ dq)"

definition update_chain ::
  "env \<Rightarrow> string \<Rightarrow> string \<Rightarrow> string \<Rightarrow> string \<Rightarrow> string \<Rightarrow> string \<Rightarrow> string ResultAsync" where
  "update_chain env repoName filePath fileContent oldSha userId branchName =
     (let efsVolPath = getEfsVolPathFromBranch env branchName;
          s0 = getLatestCommitOfBranch env repoName branchName;
          s1 = andThen s0 (\<lambda>latestCommit. okAsync True);
          s2 = andThen s1 (\<lambda>_.
                 getFilePathStats env repoName filePath
                   (branchName \<noteq> STAGING_LITE_BRANCH env));
          s3 = andThen s2 (\<lambda>stats.
                 if \<not> isFile stats then errAsync (notValidFile filePath repoName)
                 else okAsync True);
          s4 = andThen s3 (\<lambda>_.
                 andThen (getGitBlobHash env repoName filePath True)
                   (conflictIfShaDiffers oldSha));
          s5 = andThen s4 (\<lambda>_.
                 fromPromise (answer_unit env)
                   (FsWriteFile (efsVolPath @ ''/'' @ repoName @ ''/'' @ filePath)
                      fileContent Utf8)
                   (\<lambda>error.
                      if isError error
                      then GitFileSystemNeedsRollbackError ''Unable to update file on disk''
                      else GitFileSystemNeedsRollbackError ''An unknown error occurred''));
          s6 = andThen s5 (\<lambda>_.
                 (let fileName = last (split_on CHR ''/'' filePath)
                  in commit env repoName [filePath] userId
                       (''Update file: '' @ fileName) branchName False))
      in s6)"

definition update ::
  "env \<Rightarrow> string \<Rightarrow> string \<Rightarrow> string \<Rightarrow> string \<Rightarrow> string \<Rightarrow> string \<Rightarrow> string ResultAsync" where
  "update env repoName filePath fileContent oldSha userId branchName =
     (\<lambda>t.
        let oldStateSha =
              (case fst (getLatestCommitOfBranch env repoName branchName t) of
                 Inl e \<Rightarrow> []
               | Inr latestCommit \<Rightarrow> sha latestCommit)
        in orElse (update_chain env repoName filePath fileContent oldSha userId branchName)
             (rollbackOnNeedsRollback env repoName oldStateSha branchName) t)"

definition delete_chain ::
  "env \<Rightarrow> string \<Rightarrow> string \<Rightarrow> string \<Rightarrow> string \<Rightarrow> bool \<Rightarrow> string \<Rightarrow> string ResultAsync" where
  "delete_chain env repoName path oldSha userId isDir branchName =
     (let efsVolPath = getEfsVolPathFromBranch env branchName;
          s0 = getLatestCommitOfBranch env repoName branchName;
          s1 = andThen s0 (\<lambda>latestCommit.
                 if sha latestCommit = []
                 then errAsync
                        (GitFileSystemError
                           (''Unable to find latest commit of repo: '' @ repoName @
                            '' on branch '' @ dq @ branchName @ dq))
                 else okAsync True);
          s2 = andThen s1 (\<lambda>_.
                 getFilePathStats env repoName path
                   (branchName \<noteq> STAGING_LITE_BRANCH env));
          s3 = andThen s2 (\<lambda>stats.
                 if isDir \<and> \<not> isDirectory stats
                 then errAsync (notValidDirectory path repoName)
                 else if \<not> isDir \<and> \<not> isFile stats
                 then errAsync (notValidFile path repoName)
                 else okAsync True);
          s4 = andThen s3 (\<lambda>_.
                 if isDir then okAsync []
                 else andThen (getGitBlobHash env repoName path True)
                        (conflictIfShaDiffers oldSha));
          s5 = andThen s4 (\<lambda>_.
                 fromPromise (answer_unit env)
                   (if isDir
                    then FsRm (efsVolPath @ ''/'' @ repoName @ ''/'' @ path) True
                    else FsRm (efsVolPath @ ''/'' @ repoName @ ''/'' @ path) False)
                   (\<lambda>error.
                      if isError error
                      then GitFileSystemNeedsRollbackError
                             (''Unable to delete '' @
                              (if isDir then ''directory'' else ''file'') @ '' on disk'')
                      else GitFileSystemNeedsRollbackError ''An unknown error occurred''));
          s6 = andThen s5 (\<lambda>_.
                 commit env repoName [path] userId
                   (''Delete '' @
                    (if isDir then ''directory: '' @ path
                     else ''file: '' @ last (split_on CHR ''/'' path)))
                   branchName False)
      in s6)"

definition delete ::
  "env \<Rightarrow> string \<Rightarrow> string \<Rightarrow> string \<Rightarrow> string \<Rightarrow> bool \<Rightarrow> string \<Rightarrow> string ResultAsync" where
  "delete env repoName path oldSha userId isDir branchName =
     (\<lambda>t.
        let oldStateSha =
              (case fst (getLatestCommitOfBranch env repoName branchName t) of
                 Inl e \<Rightarrow> []
               | Inr latestCommit \<Rightarrow> if sha latestCommit = [] then [] else sha latestCommit)
        in orElse (delete_chain env repoName path oldSha userId isDir branchName)
             (rollbackOnNeedsRollback env repoName oldStateSha branchName) t)"

text \<open>The check of \<^verbatim>\<open>renameSinglePath\<close> that the destination does not exist yet.\<close>

definition expectAbsent :: "env \<Rightarrow> string \<Rightarrow> string \<Rightarrow> string \<Rightarrow> bool ResultAsync" where
  "expectAbsent env repoName path branchName =
     orElse
       (mapOk
          (andThen
             (getFilePathStats env repoName path (branchName \<noteq> STAGING_LITE_BRANCH env))
             (\<lambda>_. (errAsync (ConflictError ''File path already exists'') :: unit ResultAsync)))
          (\<lambda>_. True))
       (\<lambda>error. if isNotFoundError error then okAsync True else errAsync error)"

text \<open>
  \<^verbatim>\<open>message || `Renamed ...`\<close>: an absent or empty message gives way to the default.
\<close>

definition messageOr :: "string option \<Rightarrow> string \<Rightarrow> string" where
  "messageOr msg dflt = (case msg of None \<Rightarrow> dflt | Some m \<Rightarrow> if m = [] then dflt else m)"

definition renameSinglePath_chain ::
  "env \<Rightarrow> string \<Rightarrow> string \<Rightarrow> string \<Rightarrow> string \<Rightarrow> string \<Rightarrow> string option \<Rightarrow>
   string ResultAsync" where
  "renameSinglePath_chain env repoName oldPath newPath userId branchName msg =
     (let efsVolPath = getEfsVolPathFromBranch env branchName;
          s0 = getLatestCommitOfBranch env repoName branchName;
          s1 = andThen s0 (\<lambda>latestCommit. okAsync True);
          s2 = andThen s1 (\<lambda>_.
                 getFilePathStats env repoName oldPath
                   (branchName \<noteq> STAGING_LITE_BRANCH env));
          s3 = andThen s2 (\<lambda>_. expectAbsent env repoName newPath branchName);
          s4 = andThen s3 (\<lambda>_.
                 fromPromise (answer_unit env)
                   (GitMv (efsVolPath @ ''/'' @ repoName) oldPath newPath)
                   (\<lambda>error.
                      if isGitError error
                      then GitFileSystemNeedsRollbackError
                             (''Unable to rename '' @ oldPath @ '' to '' @ newPath)
                      else GitFileSystemNeedsRollbackError ''An unknown error occurred''));
          s5 = andThen s4 (\<lambda>_.
                 commit env repoName [oldPath, newPath] userId
                   (messageOr msg (''Renamed '' @ oldPath @ '' to '' @ newPath))
                   branchName True)
      in s5)"

definition renameSinglePath ::
  "env \<Rightarrow> string \<Rightarrow> string \<Rightarrow> string \<Rightarrow> string \<Rightarrow> string \<Rightarrow> string option \<Rightarrow>
   string ResultAsync" where
  "renameSinglePath env repoName oldPath newPath userId branchName msg =
     (\<lambda>t.
        let oldStateSha =
              (case fst (getLatestCommitOfBranch env repoName branchName t) of
                 Inl e \<Rightarrow> []
               | Inr latestCommit \<Rightarrow> sha latestCommit)
        in orElse (renameSinglePath_chain env repoName oldPath newPath userId branchName msg)
             (rollbackOnNeedsRollback env repoName oldStateSha branchName) t)"

text \<open>
  The chain that \<^verbatim>\<open>moveFiles\<close> builds for one target file. Building it stats the
  destination; the callbacks turn an existing destination into a \<^verbatim>\<open>ConflictError\<close>, accept
  an absent one, and then rename the file.
\<close>

definition moveFileStat :: "env \<Rightarrow> string \<Rightarrow> string \<Rightarrow> string \<Rightarrow> string \<Rightarrow> Stats ResultAsync" where
  "moveFileStat env repoName newPath branchName targetFile =
     getFilePathStats env repoName (newPath @ ''/'' @ targetFile)
       (branchName \<noteq> STAGING_LITE_BRANCH env)"

definition moveFileCallbacks ::
  "env \<Rightarrow> string \<Rightarrow> string \<Rightarrow> string \<Rightarrow> string \<Rightarrow> string \<Rightarrow> error + Stats \<Rightarrow>
   unit ResultAsync" where
  "moveFileCallbacks env repoName oldPath newPath branchName targetFile destination =
     (let efsVolPath = getEfsVolPathFromBranch env branchName
      in andThen
           (orElse
              (mapOk
                 (andThen (settledAsync destination)
                    (\<lambda>_. (errAsync (ConflictError ''File path already exists'')
                            :: unit ResultAsync)))
                 (\<lambda>_. True))
              (\<lambda>error. if isNotFoundError error then okAsync True else errAsync error))
           (\<lambda>_.
              fromPromise (answer_unit env)
                (FsRename (efsVolPath @ ''/'' @ repoName @ ''/'' @ oldPath @ ''/'' @ targetFile)
                   (efsVolPath @ ''/'' @ repoName @ ''/'' @ newPath @ ''/'' @ targetFile))
                (\<lambda>error.
                   if isGitError error
                   then GitFileSystemNeedsRollbackError
                          (''Unable to move '' @ targetFile @ '' to '' @ newPath)
                   else GitFileSystemNeedsRollbackError ''An unknown error occurred'')))"

definition moveFiles_chain ::
  "env \<Rightarrow> string \<Rightarrow> string \<Rightarrow> string \<Rightarrow> string \<Rightarrow> string list \<Rightarrow> string \<Rightarrow> string option \<Rightarrow>
   string ResultAsync" where
  "moveFiles_chain env repoName oldPath newPath userId targetFiles branchName msg =
     (let efsVolPath = getEfsVolPathFromBranch env branchName;
          s0 = getLatestCommitOfBranch env repoName branchName;
          s1 = andThen s0 (\<lambda>latestCommit. okAsync True);
          s2 = andThen s1 (\<lambda>_.
                 getFilePathStats env repoName oldPath
                   (branchName \<noteq> STAGING_LITE_BRANCH env));
          s3 = andThen s2 (\<lambda>stats.
                 if \<not> isDirectory stats
                 then errAsync (notValidDirectory oldPath repoName)
                 else okAsync True);
          s4 = andThen s3 (\<lambda>_.
                 fromPromise (answer_unit env)
                   (FsMkdir (efsVolPath @ ''/'' @ repoName @ ''/'' @ newPath) True)
                   (\<lambda>error.
                      if isError error
                      then GitFileSystemNeedsRollbackError
                             (''Unable to create '' @ newPath)
                      else GitFileSystemNeedsRollbackError ''An unknown error occurred''));
          s5 = andThen s4 (\<lambda>_.
                 combine
                   (map (\<lambda>targetFile.
                           (moveFileStat env repoName newPath branchName targetFile,
                            moveFileCallbacks env repoName oldPath newPath branchName targetFile))
                      targetFiles));
          s6 = andThen s5 (\<lambda>_.
                 commit env repoName [oldPath, newPath] userId
                   (messageOr msg
                      (''Moved selected files from '' @ oldPath @ '' to '' @ newPath))
                   branchName False)
      in s6)"

definition moveFiles ::
  "env \<Rightarrow> string \<Rightarrow> string \<Rightarrow> string \<Rightarrow> string \<Rightarrow> string list \<Rightarrow> string \<Rightarrow> string option \<Rightarrow>
   string ResultAsync" where
  "moveFiles env repoName oldPath newPath userId targetFiles branchName msg =
     (\<lambda>t.
        let oldStateSha =
              (case fst (getLatestCommitOfBranch env repoName branchName t) of
                 Inl e \<Rightarrow> []
               | Inr latestCommit \<Rightarrow> sha latestCommit)
        in orElse (moveFiles_chain env repoName oldPath newPath userId targetFiles branchName msg)
             (rollbackOnNeedsRollback env repoName oldStateSha branchName) t)"

section \<open>Pinning a repository to a commit\<close>

definition updateRepoState :: "env \<Rightarrow> string \<Rightarrow> string \<Rightarrow> string \<Rightarrow> unit ResultAsync" where
  "updateRepoState env repoName branchName sha' =
     (let efsVolPath = getEfsVolPathFromBranch env branchName
      in andThen (isValidGitRepo env repoName branchName) (\<lambda>isValid.
           if \<not> isValid then errAsync (notValidRepo repoName)
           else
             (let s1 = andThen (ensureCorrectBranch env repoName branchName) (\<lambda>_.
                         fromPromise (answer_string env)
                           (GitCatFile (efsVolPath @ ''/'' @ repoName) [''-t'', sha'])
                           (\<lambda>error.
                              if isGitError error
                              then BadRequestError ''The provided SHA is invalid''
                              else GitFileSystemError ''An unknown error occurred''));
                  s2 = andThen s1 (\<lambda>_.
                         fromPromise (answer_unit env)
                           (GitReset (efsVolPath @ ''/'' @ repoName) [''--hard'', sha'])
                           (\<lambda>error.
                              if isGitError error
                              then GitFileSystemError
                                     (''Unable to update repo state to commit SHA '' @ sha')
                              else GitFileSystemError ''An unknown error occurred''));
                  s3 = andThen s2 (\<lambda>_. push env repoName branchName True)
              in mapOk s3 (\<lambda>_. ()))))"

section \<open>Observing call histories\<close>


fun mutatesDisk :: "call \<Rightarrow> bool" where
  "mutatesDisk (FsMkdir p r) = True"
| "mutatesDisk (FsWriteFile p c e) = True"
| "mutatesDisk (FsRm p r) = True"
| "mutatesDisk (FsRename a b) = True"
| "mutatesDisk (GitMv cwd a b) = True"
| "mutatesDisk c = False"

fun isRollbackCall :: "call \<Rightarrow> bool" where
  "isRollbackCall (GitReset cwd args) = True"
| "isRollbackCall (GitClean cwd opts) = True"
| "isRollbackCall c = False"

fun isGitAdd :: "call \<Rightarrow> bool" where
  "isGitAdd (GitAdd cwd pathSpec) = True"
| "isGitAdd c = False"

fun isGitCommit :: "call \<Rightarrow> bool" where
  "isGitCommit (GitCommit cwd m) = True"
| "isGitCommit c = False"


text \<open>The calls of \<^verbatim>\<open>isValidGitRepo\<close>.\<close>

fun validationCall :: "call \<Rightarrow> bool" where
  "validationCall (FsStat p) = True"
| "validationCall (GitCheckIsRepo cwd) = True"
| "validationCall (GitRemote cwd args) = True"
| "validationCall c = False"



text \<open>
  \<open>only_calls P m\<close>: whatever the history, \<open>m\<close> extends it, and only by calls that satisfy
  \<open>P\<close>. \<open>only_errors Q m\<close>: whenever \<open>m\<close> ends in \<^verbatim>\<open>Err\<close>, the error satisfies \<open>Q\<close>.
\<close>

definition only_calls :: "(call \<Rightarrow> bool) \<Rightarrow> 'a ResultAsync \<Rightarrow> bool" where
  "only_calls P m = (\<forall>t. \<exists>new. snd (m t) = t @ new \<and> list_all P new)"

definition only_errors :: "(error \<Rightarrow> bool) \<Rightarrow> 'a ResultAsync \<Rightarrow> bool" where
  "only_errors Q m = (\<forall>t. case fst (m t) of Inl e \<Rightarrow> Q e | Inr v \<Rightarrow> True)"

fun plainOrNotFound :: "error \<Rightarrow> bool" where
  "plainOrNotFound (NotFoundError m) = True"
| "plainOrNotFound (GitFileSystemError m) = True"
| "plainOrNotFound e = False"

section \<open>Example environments\<close>

text \<open>
  A site \<^verbatim>\<open>site\<close> whose two trees are valid repositories on the branch \<^verbatim>\<open>staging\<close>. The file
  \<^verbatim>\<open>pages/a.md\<close> exists and has the blob hash \<^verbatim>\<open>b1\<close>; \<^verbatim>\<open>pages/b.md\<close> and the directory
  \<^verbatim>\<open>drafts\<close> do not exist; \<^verbatim>\<open>pages/index.lock\<close> is on disk and unknown to Git. The latest
  commit is \<^verbatim>\<open>c0\<close>, and a new commit gets the hash \<^verbatim>\<open>c1\<close>.
\<close>

definition dirStats :: Stats where
  "dirStats = \<lparr>isDirectory = True, isFile = False, size_bytes = 4096\<rparr>"

definition fileStats :: Stats where
  "fileStats = \<lparr>isDirectory = False, isFile = True, size_bytes = 5\<rparr>"

definition headCommit :: DefaultLogFields where
  "headCommit =
     \<lparr>author_name = ''editor'', author_email = ''editor@example.gov'',
      date = ''2023-08-01'', message = ''{}'', hash = ''c0''\<rparr>"

definition healthy_stats :: "call list \<Rightarrow> call \<Rightarrow> thrown + Stats" where
  "healthy_stats h c =
     (if c = FsStat ''/efs/repos/site/pages/a.md'' then Inr fileStats
      else if c = FsStat ''/efs/repos/site/pages/index.lock'' then Inr fileStats
      else if c = FsStat ''/efs/repos/site/pages/b.md''
      then Inl (PlainError ''ENOENT: no such file or directory'')
      else if c = FsStat ''/efs/repos/site/drafts''
      then Inl (PlainError ''ENOENT: no such file or directory'')
      else if c = FsStat ''/efs/repos/site/drafts/n.md''
      then Inl (PlainError ''ENOENT: no such file or directory'')
      else Inr dirStats)"

definition healthy_string :: "call list \<Rightarrow> call \<Rightarrow> thrown + string" where
  "healthy_string h c =
     (case c of
        GitRevparse cwd args \<Rightarrow>
          (if args = [''--abbrev-ref'', ''HEAD''] then Inr ''staging''
           else if args = [''HEAD:pages/index.lock'']
           then Inl (GitError ''fatal: path does not exist in HEAD'')
           else Inr ''b1'')
      | GitCommit cwd m \<Rightarrow> Inr ''c1''
      | GitCatFile cwd args \<Rightarrow> Inr ''commit''
      | _ \<Rightarrow> Inr ''aGVsbG8='')"

definition healthy :: env where
  "healthy =
     \<lparr>EFS_VOL_PATH_STAGING = ''/efs/repos'',
      EFS_VOL_PATH_STAGING_LITE = ''/efs/repos-lite'',
      ISOMER_GITHUB_ORG_NAME = ''isomerpages'',
      STAGING_BRANCH = ''staging'',
      STAGING_LITE_BRANCH = ''staging-lite'',
      answer_unit = (\<lambda>h c. Inr ()),
      answer_string = healthy_string,
      answer_bool = (\<lambda>h c. Inr True),
      answer_remote =
        (\<lambda>h c. Inr (Some (''git@github.com:isomerpages/site.git'' @ [CHR 0x0A]))),
      answer_stats = healthy_stats,
      answer_log = (\<lambda>h c. Inr (Some headCommit)),
      answer_dirents =
        (\<lambda>h c. Inr [\<lparr>dirent_name = ''a.md'', dirent_isDirectory = False\<rparr>,
                     \<lparr>dirent_name = ''index.lock'', dirent_isDirectory = False\<rparr>])\<rparr>"

text \<open>The same site when \<^verbatim>\<open>git commit\<close> is rejected.\<close>

definition commit_rejected :: env where
  "commit_rejected =
     healthy\<lparr>answer_string := (\<lambda>h c.
        case c of
          GitCommit cwd m \<Rightarrow> Inl (GitError ''fatal: unable to write new index file'')
        | _ \<Rightarrow> healthy_string h c)\<rparr>"

text \<open>The same site when \<^verbatim>\<open>git rev-parse --abbrev-ref HEAD\<close> is rejected.\<close>

definition branch_unreadable :: env where
  "branch_unreadable =
     healthy\<lparr>answer_string := (\<lambda>h c.
        case c of
          GitRevparse cwd args \<Rightarrow>
            (if args = [''--abbrev-ref'', ''HEAD'']
             then Inl (GitError ''fatal: ambiguous argument HEAD'')
             else Inr ''b1'')
        | _ \<Rightarrow> healthy_string h c)\<rparr>"

text \<open>
  The same site when the directory of the \<^verbatim>\<open>staging-lite\<close> tree exists, but only the
  \<^verbatim>\<open>staging\<close> tree is a Git repository.
\<close>

definition lite_not_initialised :: env where
  "lite_not_initialised =
     healthy\<lparr>answer_bool := (\<lambda>h c. Inr (c = GitCheckIsRepo ''/efs/repos/site''))\<rparr>"

text \<open>The same site when \<^verbatim>\<open>git pull\<close> is rejected because the branches have diverged.\<close>

definition pull_diverged :: env where
  "pull_diverged =
     healthy\<lparr>answer_unit := (\<lambda>h c.
        case c of
          GitPull cwd \<Rightarrow>
            Inl (GitError ''fatal: Need to specify how to reconcile divergent branches.'')
        | _ \<Rightarrow> Inr ())\<rparr>"

text \<open>The same site when \<^verbatim>\<open>git pull\<close> is rejected because the remote cannot be reached.\<close>

definition pull_offline :: env where
  "pull_offline =
     healthy\<lparr>answer_unit := (\<lambda>h c.
        case c of
          GitPull cwd \<Rightarrow> Inl (GitError ''fatal: Could not read from remote repository.'')
        | _ \<Rightarrow> Inr ())\<rparr>"

text \<open>
  The same site with its two trees told apart. In the \<^verbatim>\<open>staging-lite\<close> tree the branch is
  \<^verbatim>\<open>staging-lite\<close>; \<^verbatim>\<open>pages/a.md\<close> is committed there with the blob hash \<^verbatim>\<open>l1\<close>, and
  \<^verbatim>\<open>pages/draft.md\<close> is on disk there and was never committed. In the \<^verbatim>\<open>staging\<close> tree
  \<^verbatim>\<open>pages/a.md\<close> has the blob hash \<^verbatim>\<open>b1\<close> and \<^verbatim>\<open>pages/draft.md\<close> is committed with the
  blob hash \<^verbatim>\<open>b2\<close>.
\<close>

definition two_trees_stats :: "call list \<Rightarrow> call \<Rightarrow> thrown + Stats" where
  "two_trees_stats h c =
     (if c = FsStat ''/efs/repos-lite/site/pages/a.md'' then Inr fileStats
      else if c = FsStat ''/efs/repos-lite/site/pages/draft.md'' then Inr fileStats
      else healthy_stats h c)"

definition two_trees_string :: "call list \<Rightarrow> call \<Rightarrow> thrown + string" where
  "two_trees_string h c =
     (case c of
        GitRevparse cwd args \<Rightarrow>
          (if args = [''--abbrev-ref'', ''HEAD'']
           then (if cwd = ''/efs/repos-lite/site'' then Inr ''staging-lite'' else Inr ''staging'')
           else if cwd = ''/efs/repos-lite/site''
           then (if args = [''HEAD:pages/a.md''] then Inr ''l1''
                 else Inl (GitError ''fatal: path does not exist in HEAD''))
           else if args = [''HEAD:pages/a.md''] then Inr ''b1''
           else if args = [''HEAD:pages/draft.md''] then Inr ''b2''
           else Inl (GitError ''fatal: path does not exist in HEAD''))
      | _ \<Rightarrow> healthy_string h c)"

definition two_trees :: env where
  "two_trees =
     healthy\<lparr>answer_string := two_trees_string,
             answer_stats := two_trees_stats,
             answer_dirents :=
               (\<lambda>h c. Inr [\<lparr>dirent_name = ''a.md'', dirent_isDirectory = False\<rparr>,
                            \<lparr>dirent_name = ''draft.md'', dirent_isDirectory = False\<rparr>])\<rparr>"

text \<open>
  The same site with the objects of its repository told apart. The latest commit of
  \<^verbatim>\<open>staging\<close> is \<^verbatim>\<open>c0\<close>. The object \<^verbatim>\<open>f1\<close> is a commit that was fetched with another
  branch and is not reachable from \<^verbatim>\<open>staging\<close>; \<^verbatim>\<open>b1\<close> is the blob of \<^verbatim>\<open>pages/a.md\<close>.
  \<^verbatim>\<open>git cat-file -t\<close> answers the type of each of them and rejects every other name, and
  \<^verbatim>\<open>git reset --hard\<close> rejects the blob.
\<close>

definition known_objects_string :: "call list \<Rightarrow> call \<Rightarrow> thrown + string" where
  "known_objects_string h c =
     (case c of
        GitCatFile cwd args \<Rightarrow>
          (if args = [''-t'', ''c0''] \<or> args = [''-t'', ''f1''] then Inr ''commit''
           else if args = [''-t'', ''b1''] then Inr ''blob''
           else Inl (GitError ''fatal: git cat-file: could not get object info''))
      | _ \<Rightarrow> healthy_string h c)"

definition known_objects_unit :: "call list \<Rightarrow> call \<Rightarrow> thrown + unit" where
  "known_objects_unit h c =
     (case c of
        GitReset cwd args \<Rightarrow>
          (if args = [''--hard'', ''b1'']
           then Inl (GitError ''fatal: Could not parse object b1'')
           else Inr ())
      | _ \<Rightarrow> Inr ())"

definition known_objects :: env where
  "known_objects =
     healthy\<lparr>answer_string := known_objects_string, answer_unit := known_objects_unit\<rparr>"

text \<open>
  The same site when the directory \<^verbatim>\<open>archive\<close> already holds \<^verbatim>\<open>a.md\<close>, does not hold
  \<^verbatim>\<open>b.md\<close>, and the rename of \<^verbatim>\<open>b.md\<close> is rejected.
\<close>

definition archive_stats :: "call list \<Rightarrow> call \<Rightarrow> thrown + Stats" where
  "archive_stats h c =
     (if c = FsStat ''/efs/repos/site/archive/a.md'' then Inr fileStats
      else if c = FsStat ''/efs/repos/site/archive/b.md''
      then Inl (PlainError ''ENOENT: no such file or directory'')
      else healthy_stats h c)"

definition archive_unit :: "call list \<Rightarrow> call \<Rightarrow> thrown + unit" where
  "archive_unit h c =
     (case c of
        FsRename a b \<Rightarrow> Inl (PlainError ''EACCES: permission denied'')
      | _ \<Rightarrow> Inr ())"

definition archive_taken :: env where
  "archive_taken = healthy\<lparr>answer_stats := archive_stats, answer_unit := archive_unit\<rparr>"

section \<open>Rules for the combinators\<close>

lemmas ra_defs =
  okAsync_def errAsync_def andThen_def orElse_def mapOk_def fromPromise_def combine2_def

lemma only_calls_okAsync: "only_calls P (okAsync v)"
  by (simp add: only_calls_def okAsync_def)

lemma only_calls_errAsync: "only_calls P (errAsync e)"
  by (simp add: only_calls_def errAsync_def)

lemma only_calls_fromPromise: "P c \<Longrightarrow> only_calls P (fromPromise oracle c ef)"
  by (simp add: only_calls_def fromPromise_def)

lemma only_calls_D:
  assumes "only_calls P m" and "m t = (r, t')"
  shows "\<exists>new. t' = t @ new \<and> list_all P new"
proof -
  from assms(1) obtain new where "snd (m t) = t @ new" "list_all P new"
    unfolding only_calls_def by blast
  with assms(2) show ?thesis by simp
qed

lemma only_calls_andThen:
  assumes "only_calls P m" and "\<And>v. only_calls P (f v)"
  shows "only_calls P (andThen m f)"
  unfolding only_calls_def
proof
  fix t
  obtain r t1 where mt: "m t = (r, t1)" by (cases "m t")
  from only_calls_D[OF assms(1) mt] obtain n1 where n1: "t1 = t @ n1" "list_all P n1" by blast
  show "\<exists>new. snd (andThen m f t) = t @ new \<and> list_all P new"
  proof (cases r)
    case (Inl e)
    with mt n1 show ?thesis by (simp add: andThen_def)
  next
    case (Inr v)
    obtain r2 t2 where ft: "f v t1 = (r2, t2)" by (cases "f v t1")
    from only_calls_D[OF assms(2) ft] obtain n2 where "t2 = t1 @ n2" "list_all P n2" by blast
    with mt n1 Inr ft have "snd (andThen m f t) = t @ (n1 @ n2) \<and> list_all P (n1 @ n2)"
      by (simp add: andThen_def)
    then show ?thesis by blast
  qed
qed

lemma only_calls_orElse:
  assumes "only_calls P m" and "\<And>e. only_calls P (f e)"
  shows "only_calls P (orElse m f)"
  unfolding only_calls_def
proof
  fix t
  obtain r t1 where mt: "m t = (r, t1)" by (cases "m t")
  from only_calls_D[OF assms(1) mt] obtain n1 where n1: "t1 = t @ n1" "list_all P n1" by blast
  show "\<exists>new. snd (orElse m f t) = t @ new \<and> list_all P new"
  proof (cases r)
    case (Inr v)
    with mt n1 show ?thesis by (simp add: orElse_def)
  next
    case (Inl e)
    obtain r2 t2 where ft: "f e t1 = (r2, t2)" by (cases "f e t1")
    from only_calls_D[OF assms(2) ft] obtain n2 where "t2 = t1 @ n2" "list_all P n2" by blast
    with mt n1 Inl ft have "snd (orElse m f t) = t @ (n1 @ n2) \<and> list_all P (n1 @ n2)"
      by (simp add: orElse_def)
    then show ?thesis by blast
  qed
qed

lemma only_calls_mapOk:
  assumes "only_calls P m"
  shows "only_calls P (mapOk m g)"
  unfolding only_calls_def
proof
  fix t
  obtain r t1 where mt: "m t = (r, t1)" by (cases "m t")
  from only_calls_D[OF assms mt] obtain n1 where "t1 = t @ n1" "list_all P n1" by blast
  with mt have "snd (mapOk m g t) = t @ n1 \<and> list_all P n1"
    by (cases r) (simp_all add: mapOk_def)
  then show "\<exists>new. snd (mapOk m g t) = t @ new \<and> list_all P new" by blast
qed

lemma only_calls_combine2:
  assumes "only_calls P ma" and "only_calls P mb"
  shows "only_calls P (combine2 ma mb)"
  unfolding only_calls_def
proof
  fix t
  obtain ra t1 where a: "ma t = (ra, t1)" by (cases "ma t")
  from only_calls_D[OF assms(1) a] obtain n1 where n1: "t1 = t @ n1" "list_all P n1" by blast
  obtain rb t2 where b: "mb t1 = (rb, t2)" by (cases "mb t1")
  from only_calls_D[OF assms(2) b] obtain n2 where n2: "t2 = t1 @ n2" "list_all P n2" by blast
  from a b n1 n2 have "snd (combine2 ma mb t) = t @ (n1 @ n2) \<and> list_all P (n1 @ n2)"
    by (simp add: combine2_def split: sum.splits)
  then show "\<exists>new. snd (combine2 ma mb t) = t @ new \<and> list_all P new" by blast
qed

lemma only_calls_if:
  "(b \<Longrightarrow> only_calls P m1) \<Longrightarrow> (\<not> b \<Longrightarrow> only_calls P m2) \<Longrightarrow>
   only_calls P (if b then m1 else m2)"
  by simp


lemmas only_calls_intros =
  only_calls_okAsync only_calls_errAsync only_calls_fromPromise only_calls_andThen
  only_calls_orElse only_calls_mapOk only_calls_combine2 only_calls_if

lemma only_errors_D: "only_errors Q m \<Longrightarrow> m t = (Inl e, t') \<Longrightarrow> Q e"
  unfolding only_errors_def by (auto split: sum.splits dest: spec[of _ t])

lemma only_errors_okAsync: "only_errors Q (okAsync v)"
  by (simp add: only_errors_def okAsync_def)

lemma only_errors_errAsync: "Q e \<Longrightarrow> only_errors Q (errAsync e)"
  by (simp add: only_errors_def errAsync_def)

lemma only_errors_fromPromise: "(\<And>x. Q (ef x)) \<Longrightarrow> only_errors Q (fromPromise oracle c ef)"
  by (simp add: only_errors_def fromPromise_def split: sum.splits)

lemma only_errors_andThen:
  assumes "only_errors Q m" and "\<And>v. only_errors Q (f v)"
  shows "only_errors Q (andThen m f)"
  unfolding only_errors_def
proof
  fix t
  obtain r t1 where mt: "m t = (r, t1)" by (cases "m t")
  show "case fst (andThen m f t) of Inl e \<Rightarrow> Q e | Inr v \<Rightarrow> True"
  proof (cases r)
    case (Inl e)
    with mt only_errors_D[OF assms(1)] show ?thesis by (simp add: andThen_def)
  next
    case (Inr v)
    obtain r2 t2 where ft: "f v t1 = (r2, t2)" by (cases "f v t1")
    with mt Inr only_errors_D[OF assms(2)] show ?thesis
      by (cases r2) (simp_all add: andThen_def)
  qed
qed

lemma only_errors_orElse:
  assumes "only_errors Q' m" and "\<And>e. Q' e \<Longrightarrow> only_errors Q (f e)"
  shows "only_errors Q (orElse m f)"
  unfolding only_errors_def
proof
  fix t
  obtain r t1 where mt: "m t = (r, t1)" by (cases "m t")
  show "case fst (orElse m f t) of Inl e \<Rightarrow> Q e | Inr v \<Rightarrow> True"
  proof (cases r)
    case (Inr v)
    with mt show ?thesis by (simp add: orElse_def)
  next
    case (Inl e)
    with mt only_errors_D[OF assms(1)] have q: "Q' e" by blast
    obtain r2 t2 where ft: "f e t1 = (r2, t2)" by (cases "f e t1")
    with mt Inl only_errors_D[OF assms(2)[OF q]] show ?thesis
      by (cases r2) (simp_all add: orElse_def)
  qed
qed

lemma only_errors_mapOk:
  assumes "only_errors Q m"
  shows "only_errors Q (mapOk m g)"
  unfolding only_errors_def
proof
  fix t
  obtain r t1 where mt: "m t = (r, t1)" by (cases "m t")
  with only_errors_D[OF assms] show "case fst (mapOk m g t) of Inl e \<Rightarrow> Q e | Inr v \<Rightarrow> True"
    by (cases r) (simp_all add: mapOk_def)
qed

lemma only_errors_if:
  "(b \<Longrightarrow> only_errors Q m1) \<Longrightarrow> (\<not> b \<Longrightarrow> only_errors Q m2) \<Longrightarrow>
   only_errors Q (if b then m1 else m2)"
  by simp

lemma only_errors_mono: "only_errors Q m \<Longrightarrow> (\<And>e. Q e \<Longrightarrow> Q' e) \<Longrightarrow> only_errors Q' m"
  unfolding only_errors_def by (auto split: sum.splits)


section \<open>Calls and errors of the building blocks\<close>


lemma getFilePathStats_errors:
  "only_errors plainOrNotFound (getFilePathStats env repoName filePath isStaging)"
  unfolding getFilePathStats_def Let_def by (intro only_errors_fromPromise) simp

lemma isGitInitialized_errors:
  "only_errors isGitFileSystemError (isGitInitialized env repoName isStaging)"
  unfolding isGitInitialized_def Let_def by (intro only_errors_fromPromise) simp

lemma isOriginRemoteCorrect_errors:
  "only_errors isGitFileSystemError (isOriginRemoteCorrect env repoName isStaging)"
  unfolding isOriginRemoteCorrect_def Let_def
  by (intro only_errors_mapOk only_errors_fromPromise) simp

lemma isValidGitRepo_calls:
  "only_calls validationCall (isValidGitRepo env repoName branchName)"
  unfolding isValidGitRepo_def getFilePathStats_def isGitInitialized_def
    isOriginRemoteCorrect_def Let_def
  by (intro only_calls_intros) simp_all

lemma isValidGitRepo_errors:
  "only_errors isGitFileSystemError (isValidGitRepo env repoName branchName)"
proof -
  let ?Q = "\<lambda>e. isBoolean e \<or> plainOrNotFound e"
  let ?R = "\<lambda>e. isBoolean e \<or> isGitFileSystemError e"
  have a: "only_errors ?Q
     (andThen (getFilePathStats env repoName [] (branchName \<noteq> STAGING_LITE_BRANCH env))
        (\<lambda>stats. if \<not> isDirectory stats then errAsync (BoolError False) else okAsync True))"
    by (intro only_errors_andThen only_errors_mono[OF getFilePathStats_errors] only_errors_if
          only_errors_errAsync only_errors_okAsync) simp_all
  have b: "\<And>e. ?Q e \<Longrightarrow>
     only_errors ?R (if isNotFoundError e then errAsync (BoolError False) else errAsync e)"
    subgoal for e by (cases e) (simp_all add: only_errors_errAsync)
    done
  have c: "\<And>e. ?R e \<Longrightarrow>
     only_errors isGitFileSystemError (if isBoolean e then okAsync False else errAsync e)"
    subgoal for e by (cases e) (simp_all add: only_errors_errAsync only_errors_okAsync)
    done
  show ?thesis
    unfolding isValidGitRepo_def Let_def
    by (intro only_errors_orElse[where Q' = ?R, OF _ c] only_errors_andThen
          only_errors_orElse[where Q' = ?Q and Q = ?R, OF a b]
          only_errors_mono[OF isGitInitialized_errors]
          only_errors_mono[OF isOriginRemoteCorrect_errors]
          only_errors_if only_errors_errAsync only_errors_okAsync) simp_all
qed




section \<open>The example site evaluated\<close>

lemmas valid_defs =
  isValidGitRepo_def getFilePathStats_def isGitInitialized_def isOriginRemoteCorrect_def
  originUrl_def trim_def isWhiteSpace_def

lemmas message_defs = notValidFile_def notValidDirectory_def conflictIfShaDiffers_def

lemmas eval_defs =
  valid_defs ra_defs Let_def getEfsVolPathFromBranch_def getEfsVolPath_def
  ensureCorrectBranch_def getGitBlobHash_def getGitLog_def getLatestCommitOfBranch_def
  commit_def commitErrorFn_def notValidRepo_def message_defs
  healthy_def healthy_stats_def healthy_string_def dirStats_def fileStats_def headCommit_def

lemma healthy_valid:
  "isValidGitRepo healthy ''site'' ''staging'' h =
     (Inr True, h @ [FsStat ''/efs/repos/site/'', GitCheckIsRepo ''/efs/repos/site'',
                     GitRemote ''/efs/repos/site'' [''get-url'', ''origin'']])"
  by (simp add: valid_defs ra_defs healthy_def healthy_stats_def dirStats_def)

lemma healthy_branch:
  "ensureCorrectBranch healthy ''site'' ''staging'' h =
     (Inr True, h @ [GitRevparse ''/efs/repos/site'' [''--abbrev-ref'', ''HEAD'']])"
  by (simp add: ensureCorrectBranch_def getEfsVolPathFromBranch_def ra_defs healthy_def
        healthy_string_def)


section \<open>Rollback\<close>

text \<open>
  A rejected \<^verbatim>\<open>git commit\<close> inside \<^verbatim>\<open>commit\<close> is a \<^verbatim>\<open>GitFileSystemNeedsRollbackError\<close>:
  \<^verbatim>\<open>update\<close> then resets to the commit read at the start, cleans, and returns the message
  as a \<^verbatim>\<open>GitFileSystemError\<close>.
\<close>

lemma rejected_commit_is_rolled_back:
  "update commit_rejected ''site'' ''pages/a.md'' ''world'' ''b1'' ''u1'' ''staging'' [] =
     (Inl (GitFileSystemError ''Unable to commit changes''),
      [GitLog ''/efs/repos/site'' [''staging''],
       FsStat ''/efs/repos/site/pages/a.md'',
       GitRevparse ''/efs/repos/site'' [''HEAD:pages/a.md''],
       FsWriteFile ''/efs/repos/site/pages/a.md'' ''world'' Utf8,
       FsStat ''/efs/repos/site/'', GitCheckIsRepo ''/efs/repos/site'',
       GitRemote ''/efs/repos/site'' [''get-url'', ''origin''],
       GitRevparse ''/efs/repos/site'' [''--abbrev-ref'', ''HEAD''],
       GitAdd ''/efs/repos/site'' [''pages/a.md''],
       GitCommit ''/efs/repos/site''
         (stringifyCommitMessage ''Update file: a.md'' ''u1'' (Some ''a.md'')),
       GitReset ''/efs/repos/site'' [''--hard'', ''c0''],
       GitClean ''/efs/repos/site'' ''fd''])"
  by (simp add: update_def update_chain_def rollbackOnNeedsRollback_def rollback_def
        rollbackErrorFn_def commit_rejected_def eval_defs)

text \<open>
  In \<^verbatim>\<open>moveFiles\<close> the destination directory is made, every destination is checked, and every
  file whose destination is free is renamed, whatever the checks of the other files said. On
  the example site where \<^verbatim>\<open>archive/a.md\<close> exists and the rename of \<^verbatim>\<open>b.md\<close> is rejected, the
  \<^verbatim>\<open>ConflictError\<close> of the first file is the result; the
  \<^verbatim>\<open>GitFileSystemNeedsRollbackError\<close> of the second is dropped, and no reset is issued.
\<close>

lemma moveFiles_conflict_hides_rejected_rename:
  "moveFiles archive_taken ''site'' ''pages'' ''archive'' ''u1'' [''a.md'', ''b.md''] ''staging''
     None [] =
     (Inl (ConflictError ''File path already exists''),
      [GitLog ''/efs/repos/site'' [''staging''],
       FsStat ''/efs/repos/site/pages'',
       FsMkdir ''/efs/repos/site/archive'' True,
       FsStat ''/efs/repos/site/archive/a.md'',
       FsStat ''/efs/repos/site/archive/b.md'',
       FsRename ''/efs/repos/site/pages/b.md'' ''/efs/repos/site/archive/b.md''])"
  by (simp add: moveFiles_def moveFiles_chain_def moveFileStat_def moveFileCallbacks_def
        combine_def settledAsync_def rollbackOnNeedsRollback_def archive_taken_def
        archive_stats_def archive_unit_def eval_defs)

text \<open>
  Claim C1. On the example site where the current branch cannot be read, \<^verbatim>\<open>update\<close> writes
  the file; the commit step then fails in its branch check with a plain
  \<^verbatim>\<open>GitFileSystemError\<close>, and the operation returns that error with the file written and
  neither a reset nor a clean issued.
\<close>

theorem failure_after_write_without_rollback:
  "update branch_unreadable ''site'' ''pages/a.md'' ''world'' ''b1'' ''u1'' ''staging'' [] =
     (Inl (GitFileSystemError ''Unable to determine current branch''),
      [GitLog ''/efs/repos/site'' [''staging''],
       FsStat ''/efs/repos/site/pages/a.md'',
       GitRevparse ''/efs/repos/site'' [''HEAD:pages/a.md''],
       FsWriteFile ''/efs/repos/site/pages/a.md'' ''world'' Utf8,
       FsStat ''/efs/repos/site/'', GitCheckIsRepo ''/efs/repos/site'',
       GitRemote ''/efs/repos/site'' [''get-url'', ''origin''],
       GitRevparse ''/efs/repos/site'' [''--abbrev-ref'', ''HEAD'']]) \<and>
   list_ex mutatesDisk
     (snd (update branch_unreadable ''site'' ''pages/a.md'' ''world'' ''b1'' ''u1'' ''staging'' [])) \<and>
   \<not> list_ex isRollbackCall
     (snd (update branch_unreadable ''site'' ''pages/a.md'' ''world'' ''b1'' ''u1'' ''staging'' []))"
proof -
  have "update branch_unreadable ''site'' ''pages/a.md'' ''world'' ''b1'' ''u1'' ''staging'' [] =
     (Inl (GitFileSystemError ''Unable to determine current branch''),
      [GitLog ''/efs/repos/site'' [''staging''],
       FsStat ''/efs/repos/site/pages/a.md'',
       GitRevparse ''/efs/repos/site'' [''HEAD:pages/a.md''],
       FsWriteFile ''/efs/repos/site/pages/a.md'' ''world'' Utf8,
       FsStat ''/efs/repos/site/'', GitCheckIsRepo ''/efs/repos/site'',
       GitRemote ''/efs/repos/site'' [''get-url'', ''origin''],
       GitRevparse ''/efs/repos/site'' [''--abbrev-ref'', ''HEAD'']])"
    by (simp add: update_def update_chain_def rollbackOnNeedsRollback_def branch_unreadable_def
          eval_defs)
  then show ?thesis by simp
qed

section \<open>Optimistic concurrency\<close>

text \<open>
  Claim C2. In the \<^verbatim>\<open>staging-lite\<close> tree of the example site with two trees, Git resolves
  \<^verbatim>\<open>HEAD:pages/a.md\<close> to \<^verbatim>\<open>l1\<close>. An \<^verbatim>\<open>update\<close> on \<^verbatim>\<open>staging-lite\<close> with the stale
  \<^verbatim>\<open>oldSha = b1\<close> looks the blob up in the \<^verbatim>\<open>staging\<close> tree, finds \<^verbatim>\<open>b1\<close>, writes the file
  in the \<^verbatim>\<open>staging-lite\<close> tree and commits there; a \<^verbatim>\<open>delete\<close> with that \<^verbatim>\<open>oldSha\<close> removes
  the file and commits. The \<^verbatim>\<open>update\<close> with the current \<^verbatim>\<open>oldSha = l1\<close> ends in the
  \<^verbatim>\<open>ConflictError\<close>.
\<close>

theorem stale_sha_accepted_on_staging_lite:
  "answer_string two_trees
     [GitLog ''/efs/repos-lite/site'' [''staging-lite''],
      FsStat ''/efs/repos-lite/site/pages/a.md'']
     (GitRevparse ''/efs/repos-lite/site'' [''HEAD:pages/a.md'']) = Inr ''l1'' \<and>
   update two_trees ''site'' ''pages/a.md'' ''world'' ''b1'' ''u1'' ''staging-lite'' [] =
     (Inr ''c1'',
      [GitLog ''/efs/repos-lite/site'' [''staging-lite''],
       FsStat ''/efs/repos-lite/site/pages/a.md'',
       GitRevparse ''/efs/repos/site'' [''HEAD:pages/a.md''],
       FsWriteFile ''/efs/repos-lite/site/pages/a.md'' ''world'' Utf8,
       FsStat ''/efs/repos-lite/site/'', GitCheckIsRepo ''/efs/repos/site'',
       GitRemote ''/efs/repos/site'' [''get-url'', ''origin''],
       GitRevparse ''/efs/repos-lite/site'' [''--abbrev-ref'', ''HEAD''],
       GitAdd ''/efs/repos-lite/site'' [''pages/a.md''],
       GitCommit ''/efs/repos-lite/site''
         (stringifyCommitMessage ''Update file: a.md'' ''u1'' (Some ''a.md''))]) \<and>
   delete two_trees ''site'' ''pages/a.md'' ''b1'' ''u1'' False ''staging-lite'' [] =
     (Inr ''c1'',
      [GitLog ''/efs/repos-lite/site'' [''staging-lite''],
       FsStat ''/efs/repos-lite/site/pages/a.md'',
       GitRevparse ''/efs/repos/site'' [''HEAD:pages/a.md''],
       FsRm ''/efs/repos-lite/site/pages/a.md'' False,
       FsStat ''/efs/repos-lite/site/'', GitCheckIsRepo ''/efs/repos/site'',
       GitRemote ''/efs/repos/site'' [''get-url'', ''origin''],
       GitRevparse ''/efs/repos-lite/site'' [''--abbrev-ref'', ''HEAD''],
       GitAdd ''/efs/repos-lite/site'' [''pages/a.md''],
       GitCommit ''/efs/repos-lite/site''
         (stringifyCommitMessage ''Delete file: a.md'' ''u1'' (Some ''a.md''))]) \<and>
   update two_trees ''site'' ''pages/a.md'' ''world'' ''l1'' ''u1'' ''staging-lite'' [] =
     (Inl (ConflictError ''File has been changed recently, please try again''),
      [GitLog ''/efs/repos-lite/site'' [''staging-lite''],
       FsStat ''/efs/repos-lite/site/pages/a.md'',
       GitRevparse ''/efs/repos/site'' [''HEAD:pages/a.md'']])"
proof (intro conjI)
  show "answer_string two_trees
     [GitLog ''/efs/repos-lite/site'' [''staging-lite''],
      FsStat ''/efs/repos-lite/site/pages/a.md'']
     (GitRevparse ''/efs/repos-lite/site'' [''HEAD:pages/a.md'']) = Inr ''l1''"
    by (simp add: two_trees_def two_trees_string_def)
  show "update two_trees ''site'' ''pages/a.md'' ''world'' ''b1'' ''u1'' ''staging-lite'' [] =
     (Inr ''c1'',
      [GitLog ''/efs/repos-lite/site'' [''staging-lite''],
       FsStat ''/efs/repos-lite/site/pages/a.md'',
       GitRevparse ''/efs/repos/site'' [''HEAD:pages/a.md''],
       FsWriteFile ''/efs/repos-lite/site/pages/a.md'' ''world'' Utf8,
       FsStat ''/efs/repos-lite/site/'', GitCheckIsRepo ''/efs/repos/site'',
       GitRemote ''/efs/repos/site'' [''get-url'', ''origin''],
       GitRevparse ''/efs/repos-lite/site'' [''--abbrev-ref'', ''HEAD''],
       GitAdd ''/efs/repos-lite/site'' [''pages/a.md''],
       GitCommit ''/efs/repos-lite/site''
         (stringifyCommitMessage ''Update file: a.md'' ''u1'' (Some ''a.md''))])"
    by (simp add: update_def update_chain_def rollbackOnNeedsRollback_def two_trees_def
          two_trees_stats_def two_trees_string_def eval_defs)
  show "delete two_trees ''site'' ''pages/a.md'' ''b1'' ''u1'' False ''staging-lite'' [] =
     (Inr ''c1'',
      [GitLog ''/efs/repos-lite/site'' [''staging-lite''],
       FsStat ''/efs/repos-lite/site/pages/a.md'',
       GitRevparse ''/efs/repos/site'' [''HEAD:pages/a.md''],
       FsRm ''/efs/repos-lite/site/pages/a.md'' False,
       FsStat ''/efs/repos-lite/site/'', GitCheckIsRepo ''/efs/repos/site'',
       GitRemote ''/efs/repos/site'' [''get-url'', ''origin''],
       GitRevparse ''/efs/repos-lite/site'' [''--abbrev-ref'', ''HEAD''],
       GitAdd ''/efs/repos-lite/site'' [''pages/a.md''],
       GitCommit ''/efs/repos-lite/site''
         (stringifyCommitMessage ''Delete file: a.md'' ''u1'' (Some ''a.md''))])"
    by (simp add: delete_def delete_chain_def rollbackOnNeedsRollback_def two_trees_def
          two_trees_stats_def two_trees_string_def eval_defs)
  show "update two_trees ''site'' ''pages/a.md'' ''world'' ''l1'' ''u1'' ''staging-lite'' [] =
     (Inl (ConflictError ''File has been changed recently, please try again''),
      [GitLog ''/efs/repos-lite/site'' [''staging-lite''],
       FsStat ''/efs/repos-lite/site/pages/a.md'',
       GitRevparse ''/efs/repos/site'' [''HEAD:pages/a.md'']])"
    by (simp add: update_def update_chain_def rollbackOnNeedsRollback_def two_trees_def
          two_trees_stats_def two_trees_string_def eval_defs)
qed

section \<open>Repository validation\<close>

text \<open>
  What \<^verbatim>\<open>isValidGitRepo\<close> decides, for either branch: the root of the tree of the branch is
  a directory, and Git, asked in the \<^verbatim>\<open>staging\<close> tree, reports a repository whose origin is
  the canonical URL.
\<close>

lemma isValidGitRepo_true_iff:
  "fst (isValidGitRepo env repoName branchName t) = Inr True \<longleftrightarrow>
     (\<exists>stats url.
        answer_stats env t
          (FsStat (getEfsVolPath env (branchName \<noteq> STAGING_LITE_BRANCH env) @ ''/'' @ repoName @ ''/''))
          = Inr stats \<and> isDirectory stats \<and>
        answer_bool env
          (t @ [FsStat (getEfsVolPath env (branchName \<noteq> STAGING_LITE_BRANCH env) @ ''/'' @ repoName @ ''/'')])
          (GitCheckIsRepo (EFS_VOL_PATH_STAGING env @ ''/'' @ repoName)) = Inr True \<and>
        answer_remote env
          (t @ [FsStat (getEfsVolPath env (branchName \<noteq> STAGING_LITE_BRANCH env) @ ''/'' @ repoName @ ''/''),
                GitCheckIsRepo (EFS_VOL_PATH_STAGING env @ ''/'' @ repoName)])
          (GitRemote (EFS_VOL_PATH_STAGING env @ ''/'' @ repoName) [''get-url'', ''origin''])
          = Inr (Some url) \<and>
        url \<noteq> [] \<and> trim url = originUrl env repoName)"
  unfolding isValidGitRepo_def getFilePathStats_def isGitInitialized_def
    isOriginRemoteCorrect_def getEfsVolPath_def Let_def
  by (auto simp: ra_defs split: sum.splits option.splits if_splits)

text \<open>
  Claim C3. The directory of the \<^verbatim>\<open>staging-lite\<close> tree of the example site exists, and Git
  answers that this tree is not a repository; only the \<^verbatim>\<open>staging\<close> tree is one. Asked about
  the branch \<^verbatim>\<open>staging-lite\<close>, \<^verbatim>\<open>isValidGitRepo\<close> stats the lite directory, then asks Git
  about the \<^verbatim>\<open>staging\<close> tree twice, and answers \<open>True\<close>.
\<close>

theorem isValidGitRepo_lite_asks_staging_tree:
  "isValidGitRepo lite_not_initialised ''site'' ''staging-lite'' [] =
     (Inr True,
      [FsStat ''/efs/repos-lite/site/'', GitCheckIsRepo ''/efs/repos/site'',
       GitRemote ''/efs/repos/site'' [''get-url'', ''origin'']]) \<and>
   answer_bool lite_not_initialised [FsStat ''/efs/repos-lite/site/'']
     (GitCheckIsRepo ''/efs/repos-lite/site'') = Inr False"
  by (simp add: valid_defs ra_defs lite_not_initialised_def healthy_def healthy_stats_def
        dirStats_def)

section \<open>Push\<close>

text \<open>
  The two attempts of \<^verbatim>\<open>push\<close> when the repository is valid and the branch was ensured: a
  rejected first push is followed by exactly one more, with the same force flag and without
  remote and branch.
\<close>

lemma push_retries_once:
  assumes "isValidGitRepo env repoName branchName t = (Inr True, t1)"
    and "ensureCorrectBranch env repoName branchName t1 = (Inr b, t2)"
    and "cwd = getEfsVolPathFromBranch env branchName @ ''/'' @ repoName"
    and "first = GitPush cwd (split_on CHR '' '' (''origin '' @ branchName) @
                   (if isForce then [''--force''] else []))"
    and "second = GitPush cwd (if isForce then [''--force''] else [])"
  shows "push env repoName branchName isForce t =
           (case answer_unit env t2 first of
              Inr u \<Rightarrow> (Inr cwd, t2 @ [first])
            | Inl x \<Rightarrow>
                (case answer_unit env (t2 @ [first]) second of
                   Inr u \<Rightarrow> (Inr cwd, t2 @ [first, second])
                 | Inl y \<Rightarrow> (Inl (pushErrorFn y), t2 @ [first, second])))"
  using assms unfolding push_def Let_def
  by (cases isForce) (simp_all add: ra_defs split: sum.splits)

text \<open>
  Claim C4. On the example site where the current branch cannot be read,
  \<^verbatim>\<open>push(site, staging)\<close> validates the repository, fails to ensure the branch, and then still
  pushes once, without remote and branch arguments; that push succeeds and the path of the
  working tree is returned.
\<close>

theorem push_after_failed_branch_check:
  "push branch_unreadable ''site'' ''staging'' False [] =
     (Inr ''/efs/repos/site'',
      [FsStat ''/efs/repos/site/'', GitCheckIsRepo ''/efs/repos/site'',
       GitRemote ''/efs/repos/site'' [''get-url'', ''origin''],
       GitRevparse ''/efs/repos/site'' [''--abbrev-ref'', ''HEAD''],
       GitPush ''/efs/repos/site'' []])"
  by (simp add: push_def ensureCorrectBranch_def getEfsVolPathFromBranch_def valid_defs ra_defs
        branch_unreadable_def healthy_def healthy_stats_def dirStats_def)

section \<open>Pull\<close>

text \<open>
  Claim C5. Let the repository be valid and the branch ensured, and let \<^verbatim>\<open>git pull\<close> be
  rejected. When the rejection is a \<^verbatim>\<open>GitError\<close> whose message contains one of the four known
  texts, \<^verbatim>\<open>pull\<close> succeeds with the path of the working tree; every other rejection ends in a
  \<^verbatim>\<open>GitFileSystemError\<close>.
\<close>

theorem pull_known_errors_are_swallowed:
  "isValidGitRepo env repoName branchName t = (Inr True, t1) \<and>
   ensureCorrectBranch env repoName branchName t1 = (Inr b, t2) \<and>
   cwd = getEfsVolPathFromBranch env branchName @ ''/'' @ repoName \<and>
   answer_unit env t2 (GitPull cwd) = Inl x \<and>
   known =
     (isGitError x \<and>
      (str_includes (thrown_message x) ''but no such ref was fetched.'' \<or>
       str_includes (thrown_message x) ''error: cannot lock ref'' \<or>
       str_includes (thrown_message x) ''Cannot fast-forward your working tree'' \<or>
       str_includes (thrown_message x) ''Need to specify how to reconcile divergent branches''))
   \<longrightarrow>
     (known \<longrightarrow> pull env repoName branchName t = (Inr cwd, t2 @ [GitPull cwd])) \<and>
     (\<not> known \<longrightarrow>
        (\<exists>m. pull env repoName branchName t = (Inl (GitFileSystemError m), t2 @ [GitPull cwd])))"
  unfolding pull_def Let_def
  by (auto simp: ra_defs)

theorem pull_known_errors_are_swallowed_witness:
  "pull pull_diverged ''site'' ''staging'' [] =
     (Inr ''/efs/repos/site'',
      [FsStat ''/efs/repos/site/'', GitCheckIsRepo ''/efs/repos/site'',
       GitRemote ''/efs/repos/site'' [''get-url'', ''origin''],
       GitRevparse ''/efs/repos/site'' [''--abbrev-ref'', ''HEAD''],
       GitPull ''/efs/repos/site'']) \<and>
   pull pull_offline ''site'' ''staging'' [] =
     (Inl (GitFileSystemError ''Unable to pull latest changes of repo''),
      [FsStat ''/efs/repos/site/'', GitCheckIsRepo ''/efs/repos/site'',
       GitRemote ''/efs/repos/site'' [''get-url'', ''origin''],
       GitRevparse ''/efs/repos/site'' [''--abbrev-ref'', ''HEAD''],
       GitPull ''/efs/repos/site''])"
proof -
  let ?t1 = "[FsStat ''/efs/repos/site/'', GitCheckIsRepo ''/efs/repos/site'',
              GitRemote ''/efs/repos/site'' [''get-url'', ''origin'']]"
  let ?t2 = "?t1 @ [GitRevparse ''/efs/repos/site'' [''--abbrev-ref'', ''HEAD'']]"
  have v1: "isValidGitRepo pull_diverged ''site'' ''staging'' [] = (Inr True, ?t1)"
    by (simp add: valid_defs ra_defs pull_diverged_def healthy_def healthy_stats_def dirStats_def)
  have b1: "ensureCorrectBranch pull_diverged ''site'' ''staging'' ?t1 = (Inr True, ?t2)"
    by (simp add: ensureCorrectBranch_def getEfsVolPathFromBranch_def ra_defs pull_diverged_def
          healthy_def healthy_string_def)
  have v2: "isValidGitRepo pull_offline ''site'' ''staging'' [] = (Inr True, ?t1)"
    by (simp add: valid_defs ra_defs pull_offline_def healthy_def healthy_stats_def dirStats_def)
  have b2: "ensureCorrectBranch pull_offline ''site'' ''staging'' ?t1 = (Inr True, ?t2)"
    by (simp add: ensureCorrectBranch_def getEfsVolPathFromBranch_def ra_defs pull_offline_def
          healthy_def healthy_string_def)
  have known: "pull pull_diverged ''site'' ''staging'' [] =
     (Inr ''/efs/repos/site'', ?t2 @ [GitPull ''/efs/repos/site''])"
    using pull_known_errors_are_swallowed[of pull_diverged "''site''" "''staging''" "[]" ?t1
            True ?t2 "''/efs/repos/site''"
            "GitError ''fatal: Need to specify how to reconcile divergent branches.''" True]
          v1 b1
    by (simp add: getEfsVolPathFromBranch_def pull_diverged_def healthy_def)
  have other: "\<exists>m. pull pull_offline ''site'' ''staging'' [] =
     (Inl (GitFileSystemError m), ?t2 @ [GitPull ''/efs/repos/site''])"
    using pull_known_errors_are_swallowed[of pull_offline "''site''" "''staging''" "[]" ?t1
            True ?t2 "''/efs/repos/site''"
            "GitError ''fatal: Could not read from remote repository.''" False]
          v2 b2
    by (simp add: getEfsVolPathFromBranch_def pull_offline_def healthy_def)
  have other': "pull pull_offline ''site'' ''staging'' [] =
     (Inl (GitFileSystemError ''Unable to pull latest changes of repo''),
      ?t2 @ [GitPull ''/efs/repos/site''])"
    using other v2 b2
    by (simp add: pull_def Let_def ra_defs getEfsVolPathFromBranch_def pull_offline_def healthy_def)
  from known other' show ?thesis by simp
qed

section \<open>Commit guard\<close>

text \<open>
  Claim C6. A commit whose \<^verbatim>\<open>pathSpec\<close> has no entry or more than two entries ends in a
  \<^verbatim>\<open>GitFileSystemError\<close>, and the only calls it issued are those of the repository
  validation: no \<^verbatim>\<open>git add\<close> and no \<^verbatim>\<open>git commit\<close>. With one or two entries and a valid
  repository the guard does not fire: when the branch check, \<^verbatim>\<open>git add\<close> (unless skipped) and
  \<^verbatim>\<open>git commit\<close> succeed, the commit hash is returned.
\<close>

theorem commit_pathSpec_guard:
  "(length pathSpec < 1 \<or> 2 < length pathSpec \<longrightarrow>
      (\<exists>m new. commit env repoName pathSpec userId msg branchName skipGitAdd t =
                  (Inl (GitFileSystemError m), t @ new) \<and>
               list_all validationCall new \<and>
               list_all (\<lambda>c. \<not> isGitAdd c \<and> \<not> isGitCommit c) new)) \<and>
   ((length pathSpec = 1 \<or> length pathSpec = 2) \<and>
    isValidGitRepo env repoName branchName t = (Inr True, t1) \<and>
    ensureCorrectBranch env repoName branchName t1 = (Inr b, t2) \<and>
    cwd = getEfsVolPathFromBranch env branchName @ ''/'' @ repoName \<and>
    (skipGitAdd \<or> answer_unit env t2 (GitAdd cwd pathSpec) = Inr ()) \<and>
    t3 = (if skipGitAdd then t2 else t2 @ [GitAdd cwd pathSpec]) \<and>
    commitMessage =
      stringifyCommitMessage msg userId
        (case pathSpec of [p] \<Rightarrow> Some (last (split_on CHR ''/'' p)) | _ \<Rightarrow> None) \<and>
    answer_string env t3 (GitCommit cwd commitMessage) = Inr h \<longrightarrow>
      commit env repoName pathSpec userId msg branchName skipGitAdd t =
        (Inr h, t3 @ [GitCommit cwd commitMessage]))"
proof (intro conjI impI)
  assume bad: "length pathSpec < 1 \<or> 2 < length pathSpec"
  obtain r t1 where v: "isValidGitRepo env repoName branchName t = (r, t1)"
    by (cases "isValidGitRepo env repoName branchName t")
  from only_calls_D[OF isValidGitRepo_calls v]
  obtain new where n: "t1 = t @ new" "list_all validationCall new" by blast
  have q: "list_all (\<lambda>c. \<not> isGitAdd c \<and> \<not> isGitCommit c) new"
    using n(2) by (induction new) (auto elim: validationCall.elims)
  show "\<exists>m new. commit env repoName pathSpec userId msg branchName skipGitAdd t =
                  (Inl (GitFileSystemError m), t @ new) \<and>
               list_all validationCall new \<and>
               list_all (\<lambda>c. \<not> isGitAdd c \<and> \<not> isGitCommit c) new"
  proof (cases r)
    case (Inl e)
    with v have "isGitFileSystemError e"
      using only_errors_D[OF isValidGitRepo_errors] by blast
    then obtain m where "e = GitFileSystemError m" by (cases e) auto
    with Inl v n q show ?thesis by (auto simp: commit_def andThen_def Let_def)
  next
    case (Inr ok)
    with v n q bad show ?thesis
      by (auto simp: commit_def andThen_def errAsync_def notValidRepo_def Let_def)
  qed
next
  assume a: "(length pathSpec = 1 \<or> length pathSpec = 2) \<and>
    isValidGitRepo env repoName branchName t = (Inr True, t1) \<and>
    ensureCorrectBranch env repoName branchName t1 = (Inr b, t2) \<and>
    cwd = getEfsVolPathFromBranch env branchName @ ''/'' @ repoName \<and>
    (skipGitAdd \<or> answer_unit env t2 (GitAdd cwd pathSpec) = Inr ()) \<and>
    t3 = (if skipGitAdd then t2 else t2 @ [GitAdd cwd pathSpec]) \<and>
    commitMessage =
      stringifyCommitMessage msg userId
        (case pathSpec of [p] \<Rightarrow> Some (last (split_on CHR ''/'' p)) | _ \<Rightarrow> None) \<and>
    answer_string env t3 (GitCommit cwd commitMessage) = Inr h"
  then show "commit env repoName pathSpec userId msg branchName skipGitAdd t =
        (Inr h, t3 @ [GitCommit cwd commitMessage])"
    unfolding commit_def Let_def by (auto simp: ra_defs)
qed

theorem commit_pathSpec_guard_witness:
  "length ([] :: string list) < 1 \<and>
   commit healthy ''site'' [] ''u1'' ''msg'' ''staging'' False [] =
     (Inl (GitFileSystemError ''Invalid pathSpec length: 0. Expected 1 or 2''),
      [FsStat ''/efs/repos/site/'', GitCheckIsRepo ''/efs/repos/site'',
       GitRemote ''/efs/repos/site'' [''get-url'', ''origin'']]) \<and>
   commit healthy ''site'' [''pages/a.md''] ''u1'' ''msg'' ''staging'' False [] =
     (Inr ''c1'',
      [FsStat ''/efs/repos/site/'', GitCheckIsRepo ''/efs/repos/site'',
       GitRemote ''/efs/repos/site'' [''get-url'', ''origin''],
       GitRevparse ''/efs/repos/site'' [''--abbrev-ref'', ''HEAD''],
       GitAdd ''/efs/repos/site'' [''pages/a.md''],
       GitCommit ''/efs/repos/site''
         (stringifyCommitMessage ''msg'' ''u1'' (Some ''a.md''))])"
proof -
  have bad: "commit healthy ''site'' [] ''u1'' ''msg'' ''staging'' False [] =
     (Inl (GitFileSystemError ''Invalid pathSpec length: 0. Expected 1 or 2''),
      [FsStat ''/efs/repos/site/'', GitCheckIsRepo ''/efs/repos/site'',
       GitRemote ''/efs/repos/site'' [''get-url'', ''origin'']])"
    using commit_pathSpec_guard[of "[]" healthy "''site''" "''u1''" "''msg''" "''staging''"
            False "[]"]
          healthy_valid[of "[]"]
    by (simp add: commit_def andThen_def errAsync_def Let_def showNat.simps[of 0] digit_char_def)
  have good: "commit healthy ''site'' [''pages/a.md''] ''u1'' ''msg'' ''staging'' False [] =
     (Inr ''c1'',
      [FsStat ''/efs/repos/site/'', GitCheckIsRepo ''/efs/repos/site'',
       GitRemote ''/efs/repos/site'' [''get-url'', ''origin''],
       GitRevparse ''/efs/repos/site'' [''--abbrev-ref'', ''HEAD''],
       GitAdd ''/efs/repos/site'' [''pages/a.md''],
       GitCommit ''/efs/repos/site''
         (stringifyCommitMessage ''msg'' ''u1'' (Some ''a.md''))])"
    using commit_pathSpec_guard[of "[''pages/a.md'']" healthy "''site''" "''u1''" "''msg''"
            "''staging''" False "[]"
            "[FsStat ''/efs/repos/site/'', GitCheckIsRepo ''/efs/repos/site'',
              GitRemote ''/efs/repos/site'' [''get-url'', ''origin'']]"
            True
            "[FsStat ''/efs/repos/site/'', GitCheckIsRepo ''/efs/repos/site'',
              GitRemote ''/efs/repos/site'' [''get-url'', ''origin''],
              GitRevparse ''/efs/repos/site'' [''--abbrev-ref'', ''HEAD'']]"
            "''/efs/repos/site''"
            "[FsStat ''/efs/repos/site/'', GitCheckIsRepo ''/efs/repos/site'',
              GitRemote ''/efs/repos/site'' [''get-url'', ''origin''],
              GitRevparse ''/efs/repos/site'' [''--abbrev-ref'', ''HEAD''],
              GitAdd ''/efs/repos/site'' [''pages/a.md'']]"
            "stringifyCommitMessage ''msg'' ''u1'' (Some ''a.md'')" "''c1''"]
          healthy_valid[of "[]"]
          healthy_branch[of "[FsStat ''/efs/repos/site/'', GitCheckIsRepo ''/efs/repos/site'',
              GitRemote ''/efs/repos/site'' [''get-url'', ''origin'']]"]
    by (simp add: getEfsVolPathFromBranch_def healthy_def healthy_string_def)
  from bad good show ?thesis by simp
qed

section \<open>Creating a file\<close>







section \<open>Directory listing\<close>

text \<open>
  Claim C8. In the \<^verbatim>\<open>staging-lite\<close> tree of the example site with two trees,
  \<^verbatim>\<open>pages/draft.md\<close> is on disk and Git rejects the lookup of \<^verbatim>\<open>HEAD:pages/draft.md\<close>: the
  file was never committed there. The listing of \<^verbatim>\<open>pages\<close> on \<^verbatim>\<open>staging-lite\<close> reads the
  entries of that tree, looks every blob hash up in the \<^verbatim>\<open>staging\<close> tree, and returns
  \<^verbatim>\<open>draft.md\<close> with the blob hash \<^verbatim>\<open>b2\<close> it has there.
\<close>

theorem listing_on_staging_lite_shows_uncommitted_file:
  "answer_string two_trees
     [FsStat ''/efs/repos-lite/site/pages'', FsReaddir ''/efs/repos-lite/site/pages'']
     (GitRevparse ''/efs/repos-lite/site'' [''HEAD:pages/draft.md'']) =
     Inl (GitError ''fatal: path does not exist in HEAD'') \<and>
   listDirectoryContents two_trees ''site'' ''pages'' ''staging-lite'' [] =
     (Inr [\<lparr>item_name = ''a.md'', item_type = File, item_sha = ''b1'',
            item_path = ''pages/a.md'', item_size = 5\<rparr>,
           \<lparr>item_name = ''draft.md'', item_type = File, item_sha = ''b2'',
            item_path = ''pages/draft.md'', item_size = 5\<rparr>],
      [FsStat ''/efs/repos-lite/site/pages'', FsReaddir ''/efs/repos-lite/site/pages'',
       GitRevparse ''/efs/repos/site'' [''HEAD:pages/a.md''],
       GitRevparse ''/efs/repos/site'' [''HEAD:pages/draft.md''],
       FsStat ''/efs/repos-lite/site/pages/a.md'',
       FsStat ''/efs/repos-lite/site/pages/draft.md''])"
proof (intro conjI)
  show "answer_string two_trees
     [FsStat ''/efs/repos-lite/site/pages'', FsReaddir ''/efs/repos-lite/site/pages'']
     (GitRevparse ''/efs/repos-lite/site'' [''HEAD:pages/draft.md'']) =
     Inl (GitError ''fatal: path does not exist in HEAD'')"
    by (simp add: two_trees_def two_trees_string_def)
  show "listDirectoryContents two_trees ''site'' ''pages'' ''staging-lite'' [] =
     (Inr [\<lparr>item_name = ''a.md'', item_type = File, item_sha = ''b1'',
            item_path = ''pages/a.md'', item_size = 5\<rparr>,
           \<lparr>item_name = ''draft.md'', item_type = File, item_sha = ''b2'',
            item_path = ''pages/draft.md'', item_size = 5\<rparr>],
      [FsStat ''/efs/repos-lite/site/pages'', FsReaddir ''/efs/repos-lite/site/pages'',
       GitRevparse ''/efs/repos/site'' [''HEAD:pages/a.md''],
       GitRevparse ''/efs/repos/site'' [''HEAD:pages/draft.md''],
       FsStat ''/efs/repos-lite/site/pages/a.md'',
       FsStat ''/efs/repos-lite/site/pages/draft.md''])"
    by (simp add: listDirectoryContents_def directoryItemLookup_def directoryItemCallbacks_def
          directoryItemPath_def combine_def settledAsync_def two_trees_def
          two_trees_stats_def two_trees_string_def eval_defs)
qed

section \<open>Pinning a repository to a commit: what the check accepts\<close>

text \<open>
  Claim C9. On the example site with its objects told apart, the only question
  \<^verbatim>\<open>updateRepoState\<close> asks about the SHA is \<^verbatim>\<open>git cat-file -t\<close>, which names no branch. For the
  commit \<^verbatim>\<open>f1\<close>, which is not reachable from \<^verbatim>\<open>staging\<close>, the check is accepted, \<^verbatim>\<open>staging\<close>
  is hard-reset to \<^verbatim>\<open>f1\<close> and force-pushed. For the blob \<^verbatim>\<open>b1\<close> the check is accepted as
  well, the reset is issued and rejected, and the result is a \<^verbatim>\<open>GitFileSystemError\<close>, not a
  \<^verbatim>\<open>BadRequestError\<close>.
\<close>

theorem updateRepoState_accepts_objects_outside_the_branch:
  "updateRepoState known_objects ''site'' ''staging'' ''f1'' [] =
     (Inr (),
      [FsStat ''/efs/repos/site/'', GitCheckIsRepo ''/efs/repos/site'',
       GitRemote ''/efs/repos/site'' [''get-url'', ''origin''],
       GitRevparse ''/efs/repos/site'' [''--abbrev-ref'', ''HEAD''],
       GitCatFile ''/efs/repos/site'' [''-t'', ''f1''],
       GitReset ''/efs/repos/site'' [''--hard'', ''f1''],
       FsStat ''/efs/repos/site/'', GitCheckIsRepo ''/efs/repos/site'',
       GitRemote ''/efs/repos/site'' [''get-url'', ''origin''],
       GitRevparse ''/efs/repos/site'' [''--abbrev-ref'', ''HEAD''],
       GitPush ''/efs/repos/site'' [''origin'', ''staging'', ''--force'']]) \<and>
   updateRepoState known_objects ''site'' ''staging'' ''b1'' [] =
     (Inl (GitFileSystemError ''Unable to update repo state to commit SHA b1''),
      [FsStat ''/efs/repos/site/'', GitCheckIsRepo ''/efs/repos/site'',
       GitRemote ''/efs/repos/site'' [''get-url'', ''origin''],
       GitRevparse ''/efs/repos/site'' [''--abbrev-ref'', ''HEAD''],
       GitCatFile ''/efs/repos/site'' [''-t'', ''b1''],
       GitReset ''/efs/repos/site'' [''--hard'', ''b1'']])"
proof (intro conjI)
  show "updateRepoState known_objects ''site'' ''staging'' ''f1'' [] =
     (Inr (),
      [FsStat ''/efs/repos/site/'', GitCheckIsRepo ''/efs/repos/site'',
       GitRemote ''/efs/repos/site'' [''get-url'', ''origin''],
       GitRevparse ''/efs/repos/site'' [''--abbrev-ref'', ''HEAD''],
       GitCatFile ''/efs/repos/site'' [''-t'', ''f1''],
       GitReset ''/efs/repos/site'' [''--hard'', ''f1''],
       FsStat ''/efs/repos/site/'', GitCheckIsRepo ''/efs/repos/site'',
       GitRemote ''/efs/repos/site'' [''get-url'', ''origin''],
       GitRevparse ''/efs/repos/site'' [''--abbrev-ref'', ''HEAD''],
       GitPush ''/efs/repos/site'' [''origin'', ''staging'', ''--force'']])"
    by (simp add: updateRepoState_def push_def pushErrorFn_def known_objects_def
          known_objects_string_def known_objects_unit_def eval_defs)
  show "updateRepoState known_objects ''site'' ''staging'' ''b1'' [] =
     (Inl (GitFileSystemError ''Unable to update repo state to commit SHA b1''),
      [FsStat ''/efs/repos/site/'', GitCheckIsRepo ''/efs/repos/site'',
       GitRemote ''/efs/repos/site'' [''get-url'', ''origin''],
       GitRevparse ''/efs/repos/site'' [''--abbrev-ref'', ''HEAD''],
       GitCatFile ''/efs/repos/site'' [''-t'', ''b1''],
       GitReset ''/efs/repos/site'' [''--hard'', ''b1'']])"
    by (simp add: updateRepoState_def push_def pushErrorFn_def known_objects_def
          known_objects_string_def known_objects_unit_def eval_defs)
qed

section \<open>Media files\<close>

text \<open>
  Claim C10. The constant \<^verbatim>\<open>ALLOWED_FILE_EXTENSIONS\<close> is \<^verbatim>\<open>undefined\<close> in the service, so
  \<^verbatim>\<open>getMimeType\<close> throws a \<^verbatim>\<open>TypeError\<close> for every extension and returns neither \<^verbatim>\<open>ok\<close> nor
  \<^verbatim>\<open>err\<close>. On the example site \<^verbatim>\<open>readMediaFile\<close> reads \<^verbatim>\<open>images/logo.png\<close> and its blob
  hash, and then ends with that \<^verbatim>\<open>TypeError\<close>.
\<close>

theorem getMimeType_throws_for_every_extension:
  "ALLOWED_FILE_EXTENSIONS = None \<and>
   getMimeType fileExtension = TypeError \<and>
   readMediaFile healthy ''site'' ''images'' ''logo.png'' [] =
     (TypeError,
      [FsReadFile ''/efs/repos/site/images/logo.png'' Base64,
       GitRevparse ''/efs/repos/site'' [''HEAD:images/logo.png'']])"
proof (intro conjI)
  show undefined_import: "ALLOWED_FILE_EXTENSIONS = None"
    by (simp add: ALLOWED_FILE_EXTENSIONS_def file_upload_utils_exports_def)
  then show "getMimeType fileExtension = TypeError"
    by (simp add: getMimeType_def)
  from undefined_import
  show "readMediaFile healthy ''site'' ''images'' ''logo.png'' [] =
     (TypeError,
      [FsReadFile ''/efs/repos/site/images/logo.png'' Base64,
       GitRevparse ''/efs/repos/site'' [''HEAD:images/logo.png'']])"
    by (simp add: readMediaFile_def read_def getFileExtension_def getMimeType_def eval_defs)
qed

end
